theory Spec2Isabelle
  imports Complex_Main
begin

section \<open>Western Blacksmith: the simulation core\<close>

text \<open>
  A shallow embedding of the systems of the blacksmith simulation: the event emitter, the
  inventory, the forge (coal), tool durability, the crafting queue, the storefront, the
  blueprint registry, the contract board and the workers.

  JavaScript numbers are modelled as rationals: the claims are about the arithmetic the code
  writes down, not about IEEE rounding. The systems call one another with finite numbers and
  with material names the inventory holds, and the shop state below covers these calls. The
  material methods of the inventory are also open to any caller; the section on them models
  every property name (with the ones an object inherits) and every number (with NaN and the
  infinities), and relates the two models.
  A JavaScript object used as a dictionary is a map; where the code iterates over
  \<open>Object.entries\<close> it is an association list whose keys are distinct, as the keys of
  an object are. An optional property is an \<open>option\<close>;
  \<open>x || d\<close> and \<open>!x\<close> are written out with JavaScript's truthiness (undefined, 0 and the
  empty string are falsy).
\<close>

type_synonym num = rat

subsection \<open>Catalog data (data/items.js)\<close>

record itemData =
  item_name :: string
  category :: "string option"
  complexity :: "string option"
  craftingTime :: num
  basePrice :: num
  requiredMaterials :: "(string \<times> num) list"
  coalUsage :: "num option"
  batchSize :: "num option"
  createsTool :: "string option"
  blueprintPrice :: "num option"
  unlocked :: bool

text \<open>\<open>itemsData.items\<close>: the catalog the systems receive in their constructors.\<close>

type_synonym itemsData = "string \<rightharpoonup> itemData"

definition nail :: itemData where
  "nail = \<lparr> item_name = ''Nail'', category = Some ''metal'', complexity = Some ''simple'',
            craftingTime = 10, basePrice = 0.25, requiredMaterials = [(''iron'', 0.2)],
            coalUsage = Some 2, batchSize = Some 10, createsTool = None,
            blueprintPrice = None, unlocked = True \<rparr>"

definition hinge :: itemData where
  "hinge = \<lparr> item_name = ''Hinge'', category = Some ''metal'', complexity = Some ''simple'',
             craftingTime = 25, basePrice = 2, requiredMaterials = [(''iron'', 1)],
             coalUsage = Some 3, batchSize = None, createsTool = None,
             blueprintPrice = None, unlocked = True \<rparr>"

definition horseshoe :: itemData where
  "horseshoe = \<lparr> item_name = ''Horseshoe'', category = Some ''metal'',
                 complexity = Some ''simple'', craftingTime = 30, basePrice = 5,
                 requiredMaterials = [(''iron'', 2), (''coal'', 1)],
                 coalUsage = Some 5, batchSize = None, createsTool = None,
                 blueprintPrice = None, unlocked = True \<rparr>"

text \<open>The three basic recipes of items.js that the scenarios below use.\<close>

definition basic_items :: itemsData where
  "basic_items = [''horseshoe'' \<mapsto> horseshoe, ''nail'' \<mapsto> nail, ''hinge'' \<mapsto> hinge]"

subsection \<open>Crafting jobs and bus events\<close>

record craftingJob =
  itemId :: string
  job_name :: string
  job_craftingTime :: num
  progress :: num
  quantity :: num
  workerId :: "string option"
  paused :: bool
  pauseReason :: "string option"
  job_itemData :: itemData

text \<open>
  The events the modelled systems publish. A notification carries its severity and the
  subject of its message; the message text itself is for the presentation layer.
\<close>

datatype event =
    InventoryUpdated
  | ToolBroken string
  | CoalLow num
  | CoalUpdated num
  | CoalRefilled num
  | CoalConsumed num
  | CraftingStarted craftingJob
  | CraftingQueued craftingJob
  | CraftingProgress string num num
  | CraftingPaused string string
  | CraftingQueueUpdated "craftingJob list"
  | CraftingQueueEmpty
  | ItemCrafted string num "string option"
  | StorefrontAdd string num
  | StorefrontUpdated
  | WorkerResting string
  | WorkerWorking string
  | WorkerRefillCoal string
  | CraftingStart string num "string option"
  | NotificationError string
  | NotificationInfo string
  | NotificationSuccess string
  | NotificationWarning string

subsection \<open>State of the shop\<close>

record tool =
  uses :: num
  maxUses :: num

record inventorySystem =
  materials :: "string \<rightharpoonup> num"
  items :: "string \<rightharpoonup> num"
  tools :: "string \<rightharpoonup> tool"
  money :: num

record coalSystem =
  level :: num
  depletionRate :: num
  lowThreshold :: num
  coalPerRefill :: num
  hasWarnedAboutLowCoal :: bool

record craftingSystem =
  craftingQueue :: "craftingJob list"
  currentCraft :: "craftingJob option"
  speedMultiplier :: num
  autoAddToStorefront :: bool

record listing =
  l_quantity :: num
  price :: num
  lastSold :: "int option"

record priceModifiers =
  pm_global :: num
  byCategory :: "string \<rightharpoonup> num"
  byItem :: "string \<rightharpoonup> num"

record storefrontSystem =
  storefrontItems :: "string \<rightharpoonup> listing"
  sf_priceModifiers :: priceModifiers

text \<open>
  The systems share the inventory, the forge and the catalog by reference and talk over
  the event bus, so they are fields of one state; \<open>log\<close> is the trace of published events.
\<close>

record shop =
  inventory :: inventorySystem
  coal :: coalSystem
  crafting :: craftingSystem
  storefront :: storefrontSystem
  catalog :: itemsData
  log :: "event list"

definition publish :: "event \<Rightarrow> shop \<Rightarrow> shop" where
  "publish ev s = s\<lparr> log := log s @ [ev] \<rparr>"

text \<open>The constructors' starting values.\<close>

definition new_inventory :: inventorySystem where
  "new_inventory = \<lparr>
     materials = [''iron'' \<mapsto> 50, ''coal'' \<mapsto> 25, ''wood'' \<mapsto> 30, ''leather'' \<mapsto> 10,
                  ''gunpowder'' \<mapsto> 5, ''copper'' \<mapsto> 20, ''silver'' \<mapsto> 5, ''gold'' \<mapsto> 1],
     items = [''pickaxe'' \<mapsto> 1, ''hatchet'' \<mapsto> 1, ''horseshoe'' \<mapsto> 2],
     tools = [''hammer'' \<mapsto> \<lparr>uses = 25, maxUses = 30\<rparr>,
              ''anvil'' \<mapsto> \<lparr>uses = 50, maxUses = 50\<rparr>,
              ''tongs'' \<mapsto> \<lparr>uses = 40, maxUses = 40\<rparr>],
     money = 100 \<rparr>"

definition new_coal :: coalSystem where
  "new_coal = \<lparr> level = 100, depletionRate = 0.5, lowThreshold = 20, coalPerRefill = 5,
                 hasWarnedAboutLowCoal = False \<rparr>"

definition new_crafting :: craftingSystem where
  "new_crafting = \<lparr> craftingQueue = [], currentCraft = None, speedMultiplier = 1,
                     autoAddToStorefront = False \<rparr>"

definition new_storefront :: storefrontSystem where
  "new_storefront = \<lparr> storefrontItems = Map.empty,
     sf_priceModifiers = \<lparr> pm_global = 1, byCategory = Map.empty, byItem = Map.empty \<rparr> \<rparr>"

definition new_shop :: "itemsData \<Rightarrow> shop" where
  "new_shop itemsData = \<lparr> inventory = new_inventory, coal = new_coal, crafting = new_crafting,
     storefront = new_storefront, catalog = itemsData, log = [] \<rparr>"

subsection \<open>InventorySystem\<close>

text \<open>
  The material methods as the shop's systems call them: with the name of a material, which
  is no name an object inherits, and a finite amount. (The next section has the methods on
  every name and number, and the lemmas that relate the two.)
  \<open>!this.materials[name]\<close> holds when the entry is missing or zero: below, the \<open>None\<close>
  case and the test \<open>q = 0\<close>.
\<close>

definition set_materials :: "(string \<rightharpoonup> num) \<Rightarrow> shop \<Rightarrow> shop" where
  "set_materials m s = s\<lparr> inventory := (inventory s)\<lparr> materials := m \<rparr> \<rparr>"

definition addMaterial :: "shop \<Rightarrow> string \<Rightarrow> num \<Rightarrow> bool \<times> shop" where
  "addMaterial s name amount =
     (if amount \<le> 0 then (False, s)
      else
        let m = materials (inventory s);
            cur = (case m name of None \<Rightarrow> 0 | Some q \<Rightarrow> q)
        in (True, publish InventoryUpdated (set_materials (m(name \<mapsto> cur + amount)) s)))"

definition removeMaterial :: "shop \<Rightarrow> string \<Rightarrow> num \<Rightarrow> bool \<times> shop" where
  "removeMaterial s name amount =
     (let m = materials (inventory s) in
      case m name of
        None \<Rightarrow> (False, s)
      | Some q \<Rightarrow>
          if q = 0 \<or> q < amount then (False, s)
          else (True, publish InventoryUpdated (set_materials (m(name \<mapsto> q - amount)) s)))"

fun hasMaterials_in :: "(string \<rightharpoonup> num) \<Rightarrow> (string \<times> num) list \<Rightarrow> bool" where
  "hasMaterials_in m [] = True"
| "hasMaterials_in m ((name, amount) # rest) =
     (case m name of
        None \<Rightarrow> False
      | Some q \<Rightarrow> if q = 0 \<or> q < amount then False else hasMaterials_in m rest)"

definition hasMaterials :: "shop \<Rightarrow> (string \<times> num) list \<Rightarrow> bool" where
  "hasMaterials s required = hasMaterials_in (materials (inventory s)) required"

text \<open>
  The debit loop of \<open>consumeMaterials\<close>. It runs only after \<open>hasMaterials\<close> has passed, so
  every name it meets is present; a missing name (NaN in JavaScript) is left as it is.
\<close>

fun debit_all :: "(string \<rightharpoonup> num) \<Rightarrow> (string \<times> num) list \<Rightarrow> (string \<rightharpoonup> num)" where
  "debit_all m [] = m"
| "debit_all m ((name, amount) # rest) =
     debit_all (case m name of None \<Rightarrow> m | Some q \<Rightarrow> m(name \<mapsto> q - amount)) rest"

definition consumeMaterials :: "shop \<Rightarrow> (string \<times> num) list \<Rightarrow> bool \<times> shop" where
  "consumeMaterials s required =
     (if \<not> hasMaterials s required then (False, s)
      else (True, publish InventoryUpdated
                    (set_materials (debit_all (materials (inventory s)) required) s)))"

subsection \<open>InventorySystem: the material operations on any name and any number\<close>

text \<open>
  The operations above are the ones the shop's own systems perform: on material names
  the inventory object holds as its own, with finite amounts. The methods themselves take
  any property name and any number. \<open>this.materials\<close> is a plain object, so a name it does
  not hold itself is looked up in \<open>Object.prototype\<close>; and a number may be NaN or infinite.
  This section models the three methods on all of these inputs and shows that the rational
  model above is what they do on the inputs it covers.
\<close>

datatype number = Finite rat | PosInfinity | NegInfinity | NaN

fun number_neg :: "number \<Rightarrow> number" where
  "number_neg (Finite a) = Finite (- a)"
| "number_neg PosInfinity = NegInfinity"
| "number_neg NegInfinity = PosInfinity"
| "number_neg NaN = NaN"

fun number_add :: "number \<Rightarrow> number \<Rightarrow> number" where
  "number_add NaN _ = NaN"
| "number_add _ NaN = NaN"
| "number_add (Finite a) (Finite b) = Finite (a + b)"
| "number_add PosInfinity NegInfinity = NaN"
| "number_add NegInfinity PosInfinity = NaN"
| "number_add PosInfinity _ = PosInfinity"
| "number_add _ PosInfinity = PosInfinity"
| "number_add NegInfinity _ = NegInfinity"
| "number_add _ NegInfinity = NegInfinity"

definition number_sub :: "number \<Rightarrow> number \<Rightarrow> number" where
  "number_sub a b = number_add a (number_neg b)"

fun number_lt :: "number \<Rightarrow> number \<Rightarrow> bool" where
  "number_lt NaN _ = False"
| "number_lt _ NaN = False"
| "number_lt (Finite a) (Finite b) = (a < b)"
| "number_lt PosInfinity _ = False"
| "number_lt _ NegInfinity = False"
| "number_lt _ PosInfinity = True"
| "number_lt NegInfinity _ = True"

fun number_le :: "number \<Rightarrow> number \<Rightarrow> bool" where
  "number_le NaN _ = False"
| "number_le _ NaN = False"
| "number_le a b = (a = b \<or> number_lt a b)"

text \<open>
  What a property of the materials object can hold or yield: nothing, a number, or a value
  that is not a number: a function or object inherited from \<open>Object.prototype\<close>, or the
  string that \<open>+=\<close> makes of one. Such a value is truthy, converts to NaN where a number is
  needed, and stays a string under \<open>+\<close>.
\<close>

datatype jsvalue = Undefined | Number number | NonNumber

definition object_prototype_names :: "string list" where
  "object_prototype_names =
     [''constructor'', ''hasOwnProperty'', ''isPrototypeOf'', ''propertyIsEnumerable'',
      ''toLocaleString'', ''toString'', ''valueOf'', ''__defineGetter__'', ''__defineSetter__'',
      ''__lookupGetter__'', ''__lookupSetter__'', ''__proto__'']"

record materialStore =
  own_materials :: "string \<rightharpoonup> jsvalue"
  store_log :: "event list"

text \<open>\<open>this.materials[name]\<close>: the own property, else the inherited one, else undefined.\<close>

definition get_material :: "materialStore \<Rightarrow> string \<Rightarrow> jsvalue" where
  "get_material st name =
     (case own_materials st name of
        Some v \<Rightarrow> v
      | None \<Rightarrow> if name \<in> set object_prototype_names then NonNumber else Undefined)"

text \<open>
  \<open>this.materials[name] = v\<close> for a primitive \<open>v\<close>: an own property, except that the
  \<open>__proto__\<close> setter ignores a primitive.
\<close>

definition set_material :: "string \<Rightarrow> jsvalue \<Rightarrow> materialStore \<Rightarrow> materialStore" where
  "set_material name v st =
     (if name = ''__proto__'' then st
      else st\<lparr> own_materials := (own_materials st)(name \<mapsto> v) \<rparr>)"

definition store_publish :: "event \<Rightarrow> materialStore \<Rightarrow> materialStore" where
  "store_publish ev st = st\<lparr> store_log := store_log st @ [ev] \<rparr>"

fun truthy :: "jsvalue \<Rightarrow> bool" where
  "truthy Undefined = False"
| "truthy (Number n) = (n \<noteq> Finite 0 \<and> n \<noteq> NaN)"
| "truthy NonNumber = True"

text \<open>\<open>v < amount\<close>, \<open>v + amount\<close> and \<open>v - amount\<close> for a number \<open>amount\<close>.\<close>

fun value_lt :: "jsvalue \<Rightarrow> number \<Rightarrow> bool" where
  "value_lt (Number n) amount = number_lt n amount"
| "value_lt _ amount = False"

fun value_plus :: "jsvalue \<Rightarrow> number \<Rightarrow> jsvalue" where
  "value_plus (Number n) amount = Number (number_add n amount)"
| "value_plus NonNumber amount = NonNumber"
| "value_plus Undefined amount = Number NaN"

fun value_minus :: "jsvalue \<Rightarrow> number \<Rightarrow> jsvalue" where
  "value_minus (Number n) amount = Number (number_sub n amount)"
| "value_minus _ amount = Number NaN"

definition InventorySystem_addMaterial ::
  "materialStore \<Rightarrow> string \<Rightarrow> number \<Rightarrow> bool \<times> materialStore" where
  "InventorySystem_addMaterial st name amount =
     (if number_le amount (Finite 0) then (False, st)
      else
        let st1 = (if \<not> truthy (get_material st name)
                   then set_material name (Number (Finite 0)) st else st);
            st2 = set_material name (value_plus (get_material st1 name) amount) st1
        in (True, store_publish InventoryUpdated st2))"

definition InventorySystem_removeMaterial ::
  "materialStore \<Rightarrow> string \<Rightarrow> number \<Rightarrow> bool \<times> materialStore" where
  "InventorySystem_removeMaterial st name amount =
     (if \<not> truthy (get_material st name) \<or> value_lt (get_material st name) amount
      then (False, st)
      else (True, store_publish InventoryUpdated
                    (set_material name (value_minus (get_material st name) amount) st)))"

fun InventorySystem_hasMaterials :: "materialStore \<Rightarrow> (string \<times> number) list \<Rightarrow> bool" where
  "InventorySystem_hasMaterials st [] = True"
| "InventorySystem_hasMaterials st ((name, amount) # rest) =
     (if \<not> truthy (get_material st name) \<or> value_lt (get_material st name) amount
      then False
      else InventorySystem_hasMaterials st rest)"

fun debit_entries :: "materialStore \<Rightarrow> (string \<times> number) list \<Rightarrow> materialStore" where
  "debit_entries st [] = st"
| "debit_entries st ((name, amount) # rest) =
     debit_entries (set_material name (value_minus (get_material st name) amount) st) rest"

definition InventorySystem_consumeMaterials ::
  "materialStore \<Rightarrow> (string \<times> number) list \<Rightarrow> bool \<times> materialStore" where
  "InventorySystem_consumeMaterials st required =
     (if \<not> InventorySystem_hasMaterials st required then (False, st)
      else (True, store_publish InventoryUpdated (debit_entries st required)))"

text \<open>The materials of the constructor, as the object holds them.\<close>

definition store_of :: "shop \<Rightarrow> materialStore" where
  "store_of s = \<lparr> own_materials = map_option (\<lambda>q. Number (Finite q)) \<circ> materials (inventory s),
                  store_log = log s \<rparr>"








text \<open>\<open>quantity >= 0\<close>, as JavaScript evaluates it.\<close>

fun quantity_nonneg :: "jsvalue \<Rightarrow> bool" where
  "quantity_nonneg (Number n) = number_le (Finite 0) n"
| "quantity_nonneg _ = False"

definition finite_nonneg :: "jsvalue \<Rightarrow> bool" where
  "finite_nonneg v = (case v of Number (Finite q) \<Rightarrow> 0 \<le> q | _ \<Rightarrow> False)"

definition quantities_nonneg :: "materialStore \<Rightarrow> bool" where
  "quantities_nonneg st =
     (\<forall>name v. own_materials st name = Some v \<longrightarrow> finite_nonneg v \<and> quantity_nonneg v)"




lemma not_inherited_not_proto:
  "name \<notin> set object_prototype_names \<Longrightarrow> name \<noteq> ''__proto__''"
  by (auto simp: object_prototype_names_def)


lemma set_material_own:
  "name \<notin> set object_prototype_names \<Longrightarrow>
   own_materials (set_material name v st) = (own_materials st)(name \<mapsto> v)"
  by (simp add: set_material_def not_inherited_not_proto)


lemma quantities_nonneg_publish [simp]:
  "quantities_nonneg (store_publish ev st) = quantities_nonneg st"
  by (simp add: quantities_nonneg_def store_publish_def)
















text \<open>
  On ordinary calls the methods do what the shop's operations of the first section do:
  the rational model is the methods restricted to the names and amounts the systems use.
\<close>

lemma store_of_set_materials:
  "store_of (publish ev (set_materials m s))
     = \<lparr> own_materials = map_option (\<lambda>q. Number (Finite q)) \<circ> m, store_log = log s @ [ev] \<rparr>"
  by (simp add: store_of_def publish_def set_materials_def)

lemma get_material_store_of:
  "name \<notin> set object_prototype_names \<Longrightarrow>
   get_material (store_of s) name
     = (case materials (inventory s) name of None \<Rightarrow> Undefined | Some q \<Rightarrow> Number (Finite q))"
  by (simp add: get_material_def store_of_def split: option.splits)

lemma addMaterial_refines:
  assumes "name \<notin> set object_prototype_names"
  shows "InventorySystem_addMaterial (store_of s) name (Finite a)
           = (fst (addMaterial s name a), store_of (snd (addMaterial s name a)))"
  using assms
  by (auto simp: InventorySystem_addMaterial_def addMaterial_def Let_def get_material_store_of
      set_material_def not_inherited_not_proto store_publish_def
      store_of_def fun_eq_iff get_material_def publish_def set_materials_def
      split: option.splits)

lemma removeMaterial_refines:
  assumes "name \<notin> set object_prototype_names"
  shows "InventorySystem_removeMaterial (store_of s) name (Finite a)
           = (fst (removeMaterial s name a), store_of (snd (removeMaterial s name a)))"
  using assms
  by (auto simp: InventorySystem_removeMaterial_def removeMaterial_def Let_def
      get_material_store_of set_material_def not_inherited_not_proto
      store_publish_def store_of_def fun_eq_iff number_sub_def publish_def set_materials_def
      get_material_def
      split: option.splits)


definition as_numbers :: "(string \<times> num) list \<Rightarrow> (string \<times> number) list" where
  "as_numbers required = map (\<lambda>(name, amount). (name, Finite amount)) required"

definition as_values :: "(string \<rightharpoonup> num) \<Rightarrow> (string \<rightharpoonup> jsvalue)" where
  "as_values m = map_option (\<lambda>q. Number (Finite q)) \<circ> m"

lemma as_values_upd: "as_values (m(name \<mapsto> q)) = (as_values m)(name \<mapsto> Number (Finite q))"
  by (simp add: as_values_def fun_eq_iff)

lemma hasMaterials_refines:
  "list_all (\<lambda>e. fst e \<notin> set object_prototype_names) required \<Longrightarrow>
   InventorySystem_hasMaterials (store_of s) (as_numbers required) = hasMaterials s required"
  unfolding hasMaterials_def
proof (induction required)
  case Nil
  then show ?case by (simp add: as_numbers_def)
next
  case (Cons entry rest)
  obtain name amount where entry: "entry = (name, amount)" by (cases entry)
  from Cons.prems entry have name: "name \<notin> set object_prototype_names"
    and rest: "list_all (\<lambda>e. fst e \<notin> set object_prototype_names) rest"
    by simp_all
  from Cons.IH [OF rest] show ?case
    by (auto simp: entry as_numbers_def get_material_store_of [OF name] split: option.splits)
qed

lemma hasMaterials_in_present:
  "hasMaterials_in m required \<Longrightarrow> list_all (\<lambda>e. m (fst e) \<noteq> None) required"
  by (induction required) (auto split: option.splits if_splits)

lemma debit_entries_refines:
  "own_materials st = as_values m \<Longrightarrow>
   list_all (\<lambda>e. fst e \<notin> set object_prototype_names) required \<Longrightarrow>
   list_all (\<lambda>e. m (fst e) \<noteq> None) required \<Longrightarrow>
   own_materials (debit_entries st (as_numbers required)) = as_values (debit_all m required)
   \<and> store_log (debit_entries st (as_numbers required)) = store_log st"
proof (induction required arbitrary: st m)
  case Nil
  then show ?case by (simp add: as_numbers_def)
next
  case (Cons entry rest)
  obtain name amount where entry: "entry = (name, amount)" by (cases entry)
  from Cons.prems(2) entry have name: "name \<notin> set object_prototype_names"
    and rest: "list_all (\<lambda>e. fst e \<notin> set object_prototype_names) rest"
    by simp_all
  from Cons.prems(3) entry obtain q where q: "m name = Some q"
    and present: "list_all (\<lambda>e. m (fst e) \<noteq> None) rest"
    by auto
  let ?st' = "set_material name (value_minus (get_material st name) (Finite amount)) st"
  let ?m' = "m(name \<mapsto> q - amount)"
  have got: "get_material st name = Number (Finite q)"
    using q Cons.prems(1) by (simp add: get_material_def as_values_def)
  have own': "own_materials ?st' = as_values ?m'"
    using name Cons.prems(1) by (simp add: got set_material_own as_values_upd number_sub_def)
  have log': "store_log ?st' = store_log st"
    by (simp add: set_material_def)
  have present': "list_all (\<lambda>e. ?m' (fst e) \<noteq> None) rest"
    using present by (auto simp: list_all_iff)
  have ih: "own_materials (debit_entries ?st' (as_numbers rest)) = as_values (debit_all ?m' rest)
          \<and> store_log (debit_entries ?st' (as_numbers rest)) = store_log ?st'"
    using Cons.IH [OF own' rest present'] by (simp add: fun_upd_def)
  have left: "debit_entries st (as_numbers (entry # rest)) = debit_entries ?st' (as_numbers rest)"
    by (simp add: entry as_numbers_def)
  have right: "debit_all m (entry # rest) = debit_all ?m' rest"
    by (simp add: entry q)
  from ih log' show ?case
    unfolding left right by simp
qed

lemma consumeMaterials_refines:
  assumes "list_all (\<lambda>e. fst e \<notin> set object_prototype_names) required"
  shows "InventorySystem_consumeMaterials (store_of s) (as_numbers required)
           = (fst (consumeMaterials s required), store_of (snd (consumeMaterials s required)))"
proof (cases "hasMaterials s required")
  case False
  then show ?thesis
    using hasMaterials_refines [OF assms, of s]
    by (simp add: InventorySystem_consumeMaterials_def consumeMaterials_def)
next
  case True
  then have present: "list_all (\<lambda>e. materials (inventory s) (fst e) \<noteq> None) required"
    using hasMaterials_in_present [of "materials (inventory s)" required]
    by (simp add: hasMaterials_def)
  have own: "own_materials (store_of s) = as_values (materials (inventory s))"
    by (simp add: store_of_def as_values_def)
  from debit_entries_refines [OF own assms present]
  have "debit_entries (store_of s) (as_numbers required)
          = \<lparr> own_materials = as_values (debit_all (materials (inventory s)) required),
              store_log = log s \<rparr>"
    by (simp add: store_of_def)
  then show ?thesis
    using True hasMaterials_refines [OF assms, of s]
    by (simp add: InventorySystem_consumeMaterials_def consumeMaterials_def store_publish_def
        store_of_def as_values_def publish_def set_materials_def)
qed

subsection \<open>CoalSystem\<close>

text \<open>
  \<open>pauseCrafting\<close> of the crafting system, which its \<open>coal:updated\<close> listener calls.
\<close>

definition pauseCrafting :: "string \<Rightarrow> shop \<Rightarrow> shop" where
  "pauseCrafting reason s =
     (case currentCraft (crafting s) of
        None \<Rightarrow> s
      | Some job \<Rightarrow>
          publish (CraftingPaused (itemId job) reason)
            (s\<lparr> crafting := (crafting s)\<lparr> currentCraft :=
                   Some (job\<lparr> paused := True, pauseReason := Some reason \<rparr>) \<rparr> \<rparr>))"

text \<open>
  \<open>emit('coal:updated', level)\<close>: the crafting system's listener pauses the active job
  when the forge is empty; the other listeners only redraw.
\<close>

definition emit_coal_updated :: "num \<Rightarrow> shop \<Rightarrow> shop" where
  "emit_coal_updated lvl s =
     (let s1 = publish (CoalUpdated lvl) s in
      if lvl \<le> 0 \<and> currentCraft (crafting s1) \<noteq> None
      then pauseCrafting ''Not enough coal'' s1
      else s1)"

definition set_level :: "num \<Rightarrow> shop \<Rightarrow> shop" where
  "set_level lvl s = s\<lparr> coal := (coal s)\<lparr> level := lvl \<rparr> \<rparr>"

definition set_warned :: "bool \<Rightarrow> shop \<Rightarrow> shop" where
  "set_warned b s = s\<lparr> coal := (coal s)\<lparr> hasWarnedAboutLowCoal := b \<rparr> \<rparr>"

text \<open>
  \<open>this.inventory.materials.coal\<close> compared with \<open>coalPerRefill\<close>: a comparison with
  \<open>undefined\<close> is false either way.
\<close>

definition coal_stock_below :: "shop \<Rightarrow> bool" where
  "coal_stock_below s =
     (case materials (inventory s) ''coal'' of
        None \<Rightarrow> False
      | Some q \<Rightarrow> q < coalPerRefill (coal s))"

definition coal_stock_enough :: "shop \<Rightarrow> bool" where
  "coal_stock_enough s =
     (case materials (inventory s) ''coal'' of
        None \<Rightarrow> False
      | Some q \<Rightarrow> coalPerRefill (coal s) \<le> q)"

definition refill :: "shop \<Rightarrow> bool \<times> shop" where
  "refill s =
     (if coal_stock_below s
      then (False, publish (NotificationError ''Not enough coal available to refill the forge.'') s)
      else if 100 \<le> level (coal s)
      then (False, publish (NotificationInfo ''The forge is already full of coal.'') s)
      else
        case removeMaterial s ''coal'' (coalPerRefill (coal s)) of
          (False, _) \<Rightarrow> (False, s)
        | (True, s1) \<Rightarrow>
            (True, emit_coal_updated 100
                     (publish (CoalRefilled 100) (set_warned False (set_level 100 s1)))))"

definition CoalSystem_update :: "shop \<Rightarrow> shop" where
  "CoalSystem_update s =
     (if 0 < level (coal s) then
        let l1 = level (coal s) - depletionRate (coal s);
            l2 = (if l1 < 0 then 0 else l1);
            s1 = set_level l2 s;
            s2 = (if l2 \<le> lowThreshold (coal s1) \<and> \<not> hasWarnedAboutLowCoal (coal s1)
                  then set_warned True (publish (CoalLow l2) s1)
                  else s1);
            s3 = (if level (coal s2) \<le> lowThreshold (coal s2) \<and> coal_stock_enough s2
                  then snd (refill s2)
                  else s2)
        in emit_coal_updated (level (coal s3)) s3
      else s)"

definition hasEnoughCoal :: "shop \<Rightarrow> num \<Rightarrow> bool" where
  "hasEnoughCoal s requiredLevel = (requiredLevel \<le> level (coal s))"

definition consumeCoal :: "shop \<Rightarrow> num \<Rightarrow> bool \<times> shop" where
  "consumeCoal s amount =
     (if level (coal s) < amount then (False, s)
      else
        let l1 = level (coal s) - amount;
            l2 = (if l1 < 0 then 0 else l1);
            s1 = set_level l2 s;
            s2 = (if l2 \<le> lowThreshold (coal s1) \<and> \<not> hasWarnedAboutLowCoal (coal s1)
                  then set_warned True (publish (CoalLow l2) s1)
                  else s1)
        in (True, emit_coal_updated l2 (publish (CoalConsumed amount) s2)))"

text \<open>The events a call published: what it appended to the log.\<close>

definition published :: "shop \<Rightarrow> shop \<Rightarrow> event list" where
  "published s s' = drop (length (log s)) (log s')"

text \<open>
  The scenario of the low-fuel warning: a forge half a point above the threshold, the
  constructor's inventory (25 coal, a refill takes 5), no warning sent yet.
\<close>

definition forge_above_threshold :: shop where
  "forge_above_threshold = set_level 20.5 (new_shop basic_items)"

fun is_coal_low :: "event \<Rightarrow> bool" where
  "is_coal_low (CoalLow _) = True"
| "is_coal_low _ = False"

definition depleted_level :: "shop \<Rightarrow> num" where
  "depleted_level s = max 0 (level (coal s) - depletionRate (coal s))"

lemma published_append [simp]: "log s' = log s @ evs \<Longrightarrow> published s s' = evs"
  by (simp add: published_def)

lemma emit_coal_updated_frame [simp]:
  "coal (emit_coal_updated l s) = coal s"
  "inventory (emit_coal_updated l s) = inventory s"
  by (simp_all add: emit_coal_updated_def pauseCrafting_def publish_def Let_def split: option.splits)

lemma emit_coal_updated_log:
  "\<exists>evs. log (emit_coal_updated l s) = log s @ evs \<and> filter is_coal_low evs = []"
  by (simp add: emit_coal_updated_def pauseCrafting_def publish_def Let_def split: option.splits)

lemma refill_ok:
  assumes "coal_stock_enough s" "level (coal s) < 100" "0 < coalPerRefill (coal s)"
  shows "fst (refill s)"
    and "level (coal (snd (refill s))) = 100"
    and "\<not> hasWarnedAboutLowCoal (coal (snd (refill s)))"
    and "materials (inventory (snd (refill s))) = (materials (inventory s))(''coal'' \<mapsto> the (materials (inventory s) ''coal'') - coalPerRefill (coal s))"
    and "\<exists>evs. log (snd (refill s)) = log s @ evs \<and> filter is_coal_low evs = []"
  using assms
  by (simp_all add: refill_def coal_stock_enough_def coal_stock_below_def removeMaterial_def
      set_materials_def set_level_def set_warned_def publish_def Let_def
      emit_coal_updated_def pauseCrafting_def
      split: option.splits)

lemma refill_log:
  "\<exists>evs. log (snd (refill s)) = log s @ evs \<and> filter is_coal_low evs = []"
  by (simp add: refill_def removeMaterial_def set_materials_def set_level_def set_warned_def
      publish_def Let_def emit_coal_updated_def pauseCrafting_def
      split: option.splits)

lemma CoalSystem_update_warned_silent:
  assumes "hasWarnedAboutLowCoal (coal s)"
  shows "filter is_coal_low (published s (CoalSystem_update s)) = []"
proof (cases "0 < level (coal s)")
  case False
  then show ?thesis by (simp add: CoalSystem_update_def published_def)
next
  case True
  define s1 where "s1 = set_level (depleted_level s) s"
  define s3 where "s3 = (if level (coal s1) \<le> lowThreshold (coal s1) \<and> coal_stock_enough s1
                then snd (refill s1) else s1)"
  have l_eq: "depleted_level s = (if level (coal s) - depletionRate (coal s) < 0 then 0
                   else level (coal s) - depletionRate (coal s))"
    by (simp add: depleted_level_def max_def)
  have cu: "CoalSystem_update s = emit_coal_updated (level (coal s3)) s3"
    unfolding CoalSystem_update_def Let_def s3_def s1_def l_eq
    using True assms by (simp add: set_level_def)
  have s1_log: "log s1 = log s" by (simp add: s1_def set_level_def)
  obtain evs3 where s3_log: "log s3 = log s1 @ evs3" and evs3: "filter is_coal_low evs3 = []"
  proof (cases "level (coal s1) \<le> lowThreshold (coal s1) \<and> coal_stock_enough s1")
    case True
    then show ?thesis using refill_log [of s1] that by (auto simp: s3_def)
  next
    case False
    then have "s3 = s1" by (auto simp: s3_def)
    then show ?thesis using that [of "[]"] by simp
  qed
  obtain evs4 where s4_log: "log (CoalSystem_update s) = log s3 @ evs4"
    and evs4: "filter is_coal_low evs4 = []"
    using emit_coal_updated_log [of "level (coal s3)" s3] cu by auto
  show ?thesis
    by (simp add: published_def s4_log s3_log s1_log evs3 evs4)
qed

lemma CoalSystem_update_keeps_warning:
  assumes "hasWarnedAboutLowCoal (coal s)" "\<not> coal_stock_enough s"
  shows "hasWarnedAboutLowCoal (coal (CoalSystem_update s))
       \<and> \<not> coal_stock_enough (CoalSystem_update s)"
proof (cases "0 < level (coal s)")
  case False
  then show ?thesis using assms by (simp add: CoalSystem_update_def)
next
  case True
  define s1 where "s1 = set_level (depleted_level s) s"
  have l_eq: "depleted_level s = (if level (coal s) - depletionRate (coal s) < 0 then 0
                   else level (coal s) - depletionRate (coal s))"
    by (simp add: depleted_level_def max_def)
  have s1_stock: "\<not> coal_stock_enough s1"
    using assms(2) by (simp add: s1_def set_level_def coal_stock_enough_def split: option.splits)
  have cu: "CoalSystem_update s = emit_coal_updated (level (coal s1)) s1"
    unfolding CoalSystem_update_def Let_def l_eq
    using True assms(1) s1_stock [unfolded s1_def l_eq] by (simp add: s1_def l_eq set_level_def)
  show ?thesis
    using assms s1_stock
    by (simp add: cu coal_stock_enough_def s1_def set_level_def split: option.splits)
qed

lemma CoalSystem_update_keeps_warning_n:
  assumes "hasWarnedAboutLowCoal (coal s)" "\<not> coal_stock_enough s"
  shows "hasWarnedAboutLowCoal (coal ((CoalSystem_update ^^ n) s))
       \<and> \<not> coal_stock_enough ((CoalSystem_update ^^ n) s)"
proof (induction n)
  case 0
  then show ?case using assms by simp
next
  case (Suc n)
  then show ?case using CoalSystem_update_keeps_warning [of "(CoalSystem_update ^^ n) s"] by simp
qed

text \<open>
  The same forge when the whole coal stock has been taken out of the inventory.
\<close>

definition forge_out_of_stock :: shop where
  "forge_out_of_stock = snd (removeMaterial forge_above_threshold ''coal'' 25)"


text \<open>
  Claim C4, as the code has it. A tick with a positive level depletes the level by the
  depletion rate, clamped at 0. When the depleted level is at or below the threshold, the
  \<open>coal:low\<close> event is published exactly when no warning is pending, whether or not a
  refill is possible; after that the forge refills (level 100, the refill batch taken from
  the coal stock, the warning flag cleared) exactly when the stock holds the batch, and
  otherwise keeps the depleted level, leaves the inventory alone and has the warning flag
  set exactly when it was set before or the level is low. The warning is one-time: once the
  level is low and the stock lacks the batch, no later tick publishes \<open>coal:low\<close> again,
  however many follow.
\<close>

theorem CoalSystem_update_warns_then_refills:
  assumes "0 < level (coal s)" "lowThreshold (coal s) < 100" "0 < coalPerRefill (coal s)"
  shows "filter is_coal_low (published s (CoalSystem_update s))
           = (if depleted_level s \<le> lowThreshold (coal s) \<and> \<not> hasWarnedAboutLowCoal (coal s)
              then [CoalLow (depleted_level s)] else [])
       \<and> (if depleted_level s \<le> lowThreshold (coal s) \<and> coal_stock_enough s
          then level (coal (CoalSystem_update s)) = 100
             \<and> \<not> hasWarnedAboutLowCoal (coal (CoalSystem_update s))
             \<and> materials (inventory (CoalSystem_update s))
                 = (materials (inventory s))(''coal'' \<mapsto>
                      the (materials (inventory s) ''coal'') - coalPerRefill (coal s))
          else level (coal (CoalSystem_update s)) = depleted_level s
             \<and> inventory (CoalSystem_update s) = inventory s
             \<and> hasWarnedAboutLowCoal (coal (CoalSystem_update s))
                 = (hasWarnedAboutLowCoal (coal s) \<or> depleted_level s \<le> lowThreshold (coal s)))
       \<and> (depleted_level s \<le> lowThreshold (coal s) \<and> \<not> coal_stock_enough s
            \<longrightarrow> (\<forall>n. filter is_coal_low
                        (published ((CoalSystem_update ^^ n) (CoalSystem_update s))
                           (CoalSystem_update ((CoalSystem_update ^^ n) (CoalSystem_update s))))
                      = []))"
proof -
  define l where "l = depleted_level s"
  define s1 where "s1 = set_level l s"
  define s2 where "s2 = (if l \<le> lowThreshold (coal s) \<and> \<not> hasWarnedAboutLowCoal (coal s)
                then set_warned True (publish (CoalLow l) s1) else s1)"
  define s3 where "s3 = (if level (coal s2) \<le> lowThreshold (coal s2) \<and> coal_stock_enough s2
                then snd (refill s2) else s2)"
  have l_eq: "l = (if level (coal s) - depletionRate (coal s) < 0 then 0
                   else level (coal s) - depletionRate (coal s))"
    by (simp add: l_def depleted_level_def max_def)
  have s1_coal: "lowThreshold (coal s1) = lowThreshold (coal s)"
    "hasWarnedAboutLowCoal (coal s1) = hasWarnedAboutLowCoal (coal s)"
    by (simp_all add: s1_def set_level_def)
  have cu: "CoalSystem_update s = emit_coal_updated (level (coal s3)) s3"
    unfolding CoalSystem_update_def Let_def s3_def s2_def s1_def l_eq
    using assms(1) by (simp add: set_level_def)
  have s2_level: "level (coal s2) = l" and s2_inv: "inventory s2 = inventory s"
    and s2_thr: "lowThreshold (coal s2) = lowThreshold (coal s)"
    and s2_cpr: "coalPerRefill (coal s2) = coalPerRefill (coal s)"
    by (simp_all add: s2_def s1_def set_level_def set_warned_def publish_def)
  have s2_log: "log s2 = log s @ (if l \<le> lowThreshold (coal s) \<and> \<not> hasWarnedAboutLowCoal (coal s)
              then [CoalLow l] else [])"
    by (simp add: s2_def s1_def set_level_def set_warned_def publish_def)
  have s2_stock: "coal_stock_enough s2 = coal_stock_enough s"
    by (simp add: coal_stock_enough_def s2_inv s2_cpr split: option.splits)
  have s2_warned: "hasWarnedAboutLowCoal (coal s2)
                     = (hasWarnedAboutLowCoal (coal s) \<or> l \<le> lowThreshold (coal s))"
    by (auto simp: s2_def s1_def set_level_def set_warned_def publish_def)
  have s3_eq: "s3 = (if l \<le> lowThreshold (coal s) \<and> coal_stock_enough s
                then snd (refill s2) else s2)"
    by (simp add: s3_def s2_level s2_thr s2_stock)
  obtain evs3 where s3_log: "log s3 = log s2 @ evs3" and evs3: "filter is_coal_low evs3 = []"
  proof (cases "l \<le> lowThreshold (coal s) \<and> coal_stock_enough s")
    case True
    then have "level (coal s2) < 100" using assms(2) s2_level by simp
    with True refill_ok(5) [of s2] s2_stock s2_cpr assms(3) that show ?thesis
      by (auto simp: s3_eq)
  next
    case False
    then have "s3 = s2" by (auto simp: s3_eq)
    then show ?thesis using that [of "[]"] by simp
  qed
  obtain evs4 where s4_log: "log (CoalSystem_update s) = log s3 @ evs4"
    and evs4: "filter is_coal_low evs4 = []"
    using emit_coal_updated_log [of "level (coal s3)" s3] cu by auto
  have part1: "filter is_coal_low (published s (CoalSystem_update s))
           = (if l \<le> lowThreshold (coal s) \<and> \<not> hasWarnedAboutLowCoal (coal s)
              then [CoalLow l] else [])"
    by (simp add: published_def s4_log s3_log s2_log evs3 evs4)
  have part2: "(if l \<le> lowThreshold (coal s) \<and> coal_stock_enough s
          then level (coal (CoalSystem_update s)) = 100
             \<and> \<not> hasWarnedAboutLowCoal (coal (CoalSystem_update s))
             \<and> materials (inventory (CoalSystem_update s))
                 = (materials (inventory s))(''coal'' \<mapsto>
                      the (materials (inventory s) ''coal'') - coalPerRefill (coal s))
          else level (coal (CoalSystem_update s)) = l
             \<and> inventory (CoalSystem_update s) = inventory s
             \<and> hasWarnedAboutLowCoal (coal (CoalSystem_update s))
                 = (hasWarnedAboutLowCoal (coal s) \<or> l \<le> lowThreshold (coal s)))"
  proof (cases "l \<le> lowThreshold (coal s) \<and> coal_stock_enough s")
    case True
    then have lt: "level (coal s2) < 100" using assms(2) s2_level by simp
    have en: "coal_stock_enough s2" using True s2_stock by simp
    have pos: "0 < coalPerRefill (coal s2)" using assms(3) s2_cpr by simp
    have s3: "s3 = snd (refill s2)" using True by (simp add: s3_eq)
    show ?thesis
      using True refill_ok(2,3,4) [OF en lt pos]
      by (simp add: cu s3 s2_inv s2_cpr)
  next
    case False
    then have s3: "s3 = s2" by (auto simp: s3_eq)
    show ?thesis using False by (auto simp: cu s3 s2_level s2_inv s2_warned)
  qed
  have part3: "\<forall>n. filter is_coal_low
                        (published ((CoalSystem_update ^^ n) (CoalSystem_update s))
                           (CoalSystem_update ((CoalSystem_update ^^ n) (CoalSystem_update s))))
                      = []"
    if low: "l \<le> lowThreshold (coal s)" and short: "\<not> coal_stock_enough s"
  proof
    fix n
    have s3: "s3 = s2" using short by (simp add: s3_eq)
    have warned: "hasWarnedAboutLowCoal (coal (CoalSystem_update s))"
      using low by (simp add: cu s3 s2_warned)
    have "coal_stock_enough (CoalSystem_update s) = coal_stock_enough s2"
      by (simp add: cu s3 coal_stock_enough_def split: option.splits)
    with short s2_stock have still_short: "\<not> coal_stock_enough (CoalSystem_update s)"
      by simp
    from CoalSystem_update_keeps_warning_n [OF warned still_short, of n]
    have "hasWarnedAboutLowCoal (coal ((CoalSystem_update ^^ n) (CoalSystem_update s)))"
      by simp
    then show "filter is_coal_low
                 (published ((CoalSystem_update ^^ n) (CoalSystem_update s))
                    (CoalSystem_update ((CoalSystem_update ^^ n) (CoalSystem_update s))))
               = []"
      by (rule CoalSystem_update_warned_silent)
  qed
  from part1 part2 part3 show ?thesis by (simp add: l_def)
qed

text \<open>
  Claim C4 as stated fails: the low-fuel event is not reserved for the ticks on which no
  refill is possible. With 25 coal in stock the forge at 20.5 drops to the threshold,
  publishes \<open>coal:low\<close> and refills in the same tick.
\<close>

theorem coal_low_emitted_although_refill_possible: "coal_stock_enough forge_above_threshold
   \<and> CoalLow 20 \<in> set (published forge_above_threshold (CoalSystem_update forge_above_threshold))
   \<and> level (coal (CoalSystem_update forge_above_threshold)) = 100"
  by (simp add: forge_above_threshold_def new_shop_def new_coal_def new_inventory_def
      new_crafting_def CoalSystem_update_def set_level_def set_warned_def publish_def published_def
      Let_def coal_stock_enough_def refill_def coal_stock_below_def removeMaterial_def
      set_materials_def emit_coal_updated_def)


theorem CoalSystem_update_warns_then_refills_witness:
  "0 < level (coal forge_above_threshold)
   \<and> lowThreshold (coal forge_above_threshold) < 100
   \<and> 0 < coalPerRefill (coal forge_above_threshold)
   \<and> filter is_coal_low (published forge_above_threshold (CoalSystem_update forge_above_threshold))
       = [CoalLow 20]
   \<and> level (coal (CoalSystem_update forge_above_threshold)) = 100
   \<and> materials (inventory (CoalSystem_update forge_above_threshold)) ''coal'' = Some 20
   \<and> 0 < level (coal forge_out_of_stock)
   \<and> lowThreshold (coal forge_out_of_stock) < 100
   \<and> 0 < coalPerRefill (coal forge_out_of_stock)
   \<and> \<not> coal_stock_enough forge_out_of_stock
   \<and> filter is_coal_low (published forge_out_of_stock (CoalSystem_update forge_out_of_stock))
       = [CoalLow 20]
   \<and> level (coal (CoalSystem_update forge_out_of_stock)) = 20
   \<and> hasWarnedAboutLowCoal (coal (CoalSystem_update forge_out_of_stock))
   \<and> filter is_coal_low
         (published (CoalSystem_update forge_out_of_stock)
            (CoalSystem_update (CoalSystem_update forge_out_of_stock))) = []"
proof -
  have facts: "level (coal forge_above_threshold) = 20.5"
    "lowThreshold (coal forge_above_threshold) = 20"
    "coalPerRefill (coal forge_above_threshold) = 5"
    "\<not> hasWarnedAboutLowCoal (coal forge_above_threshold)"
    "depleted_level forge_above_threshold = 20"
    "materials (inventory forge_above_threshold) ''coal'' = Some 25"
    by (simp_all add: forge_above_threshold_def new_shop_def new_coal_def new_inventory_def
        set_level_def depleted_level_def)
  have enough: "coal_stock_enough forge_above_threshold"
    by (simp add: coal_stock_enough_def facts)
  have facts': "level (coal forge_out_of_stock) = 20.5"
    "lowThreshold (coal forge_out_of_stock) = 20"
    "coalPerRefill (coal forge_out_of_stock) = 5"
    "\<not> hasWarnedAboutLowCoal (coal forge_out_of_stock)"
    "depleted_level forge_out_of_stock = 20"
    "materials (inventory forge_out_of_stock) ''coal'' = Some 0"
    by (simp_all add: forge_out_of_stock_def removeMaterial_def set_materials_def publish_def
        forge_above_threshold_def new_shop_def new_coal_def new_inventory_def
        set_level_def depleted_level_def)
  have short: "\<not> coal_stock_enough forge_out_of_stock"
    by (simp add: coal_stock_enough_def facts')
  have first: "filter is_coal_low (published forge_above_threshold (CoalSystem_update forge_above_threshold))
       = [CoalLow 20]
   \<and> level (coal (CoalSystem_update forge_above_threshold)) = 100
   \<and> materials (inventory (CoalSystem_update forge_above_threshold)) ''coal'' = Some 20"
    using CoalSystem_update_warns_then_refills [of forge_above_threshold] facts enough
    by simp
  have second: "filter is_coal_low (published forge_out_of_stock (CoalSystem_update forge_out_of_stock))
       = [CoalLow 20]
   \<and> level (coal (CoalSystem_update forge_out_of_stock)) = 20
   \<and> hasWarnedAboutLowCoal (coal (CoalSystem_update forge_out_of_stock))
   \<and> (\<forall>n. filter is_coal_low
         (published ((CoalSystem_update ^^ n) (CoalSystem_update forge_out_of_stock))
            (CoalSystem_update ((CoalSystem_update ^^ n) (CoalSystem_update forge_out_of_stock)))) = [])"
    using CoalSystem_update_warns_then_refills [of forge_out_of_stock] facts' short
    by simp
  from second have again: "filter is_coal_low
         (published ((CoalSystem_update ^^ 0) (CoalSystem_update forge_out_of_stock))
            (CoalSystem_update ((CoalSystem_update ^^ 0) (CoalSystem_update forge_out_of_stock)))) = []"
    by blast
  from first second again short facts facts' show ?thesis
    by simp
qed

subsection \<open>BlueprintSystem\<close>

text \<open>
  The registry holds the set of unlocked ids and shares the catalog, whose \<open>unlocked\<close>
  flags it writes. \<open>bp_log\<close> is what it has published on the bus.
\<close>

datatype blueprint_event =
    BlueprintUnlocked string itemData

record blueprintSystem =
  unlockedBlueprints :: "string set"
  bp_items :: itemsData
  bp_log :: "blueprint_event list"

text \<open>The constructor seeds the set from the catalog entries marked unlocked.\<close>

definition new_blueprintSystem :: "(string \<times> itemData) list \<Rightarrow> blueprintSystem" where
  "new_blueprintSystem entries =
     \<lparr> unlockedBlueprints = set (map fst (filter (\<lambda>(item_id, item). unlocked item) entries)),
       bp_items = map_of entries,
       bp_log = [] \<rparr>"

definition isUnlocked :: "blueprintSystem \<Rightarrow> string \<Rightarrow> bool" where
  "isUnlocked b item_id = (item_id \<in> unlockedBlueprints b)"

definition unlockBlueprint :: "blueprintSystem \<Rightarrow> string \<Rightarrow> bool \<times> blueprintSystem" where
  "unlockBlueprint b item_id =
     (if item_id \<in> unlockedBlueprints b then (False, b)
      else
        case bp_items b item_id of
          None \<Rightarrow> (False, b)
        | Some item \<Rightarrow>
            (True, b\<lparr> unlockedBlueprints := insert item_id (unlockedBlueprints b),
                      bp_items := (bp_items b)(item_id \<mapsto> item\<lparr> unlocked := True \<rparr>),
                      bp_log := bp_log b @ [BlueprintUnlocked item_id (item\<lparr> unlocked := True \<rparr>)] \<rparr>))"

text \<open>
  Claim C7. \<open>unlockBlueprint\<close> is idempotent: for every registry state and every item id,
  a second call returns false and returns the state the first call left, so the unlocked
  set, the item data and the published events are those of a single call.
\<close>

theorem unlockBlueprint_idempotent:
  "unlockBlueprint (snd (unlockBlueprint b item_id)) item_id
     = (False, snd (unlockBlueprint b item_id))"
  by (simp add: unlockBlueprint_def split: option.splits)

subsection \<open>Crafted items of the inventory\<close>

definition set_items :: "(string \<rightharpoonup> num) \<Rightarrow> shop \<Rightarrow> shop" where
  "set_items m s = s\<lparr> inventory := (inventory s)\<lparr> items := m \<rparr> \<rparr>"

definition addItem :: "shop \<Rightarrow> string \<Rightarrow> num \<Rightarrow> bool \<times> shop" where
  "addItem s item_id amount =
     (if amount \<le> 0 then (False, s)
      else
        let m = items (inventory s);
            cur = (case m item_id of None \<Rightarrow> 0 | Some q \<Rightarrow> q)
        in (True, publish InventoryUpdated (set_items (m(item_id \<mapsto> cur + amount)) s)))"

definition removeItem :: "shop \<Rightarrow> string \<Rightarrow> num \<Rightarrow> bool \<times> shop" where
  "removeItem s item_id amount =
     (let m = items (inventory s) in
      case m item_id of
        None \<Rightarrow> (False, s)
      | Some q \<Rightarrow>
          if q = 0 \<or> q < amount then (False, s)
          else (True, publish InventoryUpdated
                        (set_items (if q - amount = 0 then m(item_id := None)
                                    else m(item_id \<mapsto> q - amount)) s)))"

subsection \<open>StorefrontSystem: listings and prices\<close>

definition set_storefrontItems :: "(string \<rightharpoonup> listing) \<Rightarrow> shop \<Rightarrow> shop" where
  "set_storefrontItems m s = s\<lparr> storefront := (storefront s)\<lparr> storefrontItems := m \<rparr> \<rparr>"


definition getItemBasePrice :: "shop \<Rightarrow> string \<Rightarrow> num" where
  "getItemBasePrice s item_id =
     (case catalog s item_id of None \<Rightarrow> 0 | Some item \<Rightarrow> basePrice item)"

definition addItemToStorefront :: "shop \<Rightarrow> string \<Rightarrow> num \<Rightarrow> bool \<times> shop" where
  "addItemToStorefront s item_id qty =
     (case removeItem s item_id qty of
        (False, _) \<Rightarrow> (False, publish (NotificationError item_id) s)
      | (True, s1) \<Rightarrow>
          let entry = (case storefrontItems (storefront s1) item_id of
                         None \<Rightarrow> \<lparr> l_quantity = 0, price = getItemBasePrice s1 item_id,
                                    lastSold = None \<rparr>
                       | Some l \<Rightarrow> l);
              s2 = set_storefrontItems
                     ((storefrontItems (storefront s1))
                        (item_id \<mapsto> entry\<lparr> l_quantity := l_quantity entry + qty \<rparr>)) s1
          in (True, publish (NotificationInfo item_id) (publish StorefrontUpdated s2)))"



definition setItemPrice :: "shop \<Rightarrow> string \<Rightarrow> num \<Rightarrow> bool \<times> shop" where
  "setItemPrice s item_id p =
     (case storefrontItems (storefront s) item_id of
        None \<Rightarrow> (False, s)
      | Some l \<Rightarrow>
          (True, publish StorefrontUpdated
                   (set_storefrontItems
                      ((storefrontItems (storefront s))(item_id \<mapsto> l\<lparr> price := p \<rparr>)) s)))"










subsection \<open>ContractSystem\<close>


















subsection \<open>EventEmitter\<close>

text \<open>
  A listener is a closure. What the emitter can observe of one call is whether it threw;
  what a listener can do to the emitter during the call is here what the emitter's own
  \<open>once\<close> wrapper does: it calls its unsubscribe function, which splices the wrapper out of
  the listener array, and then calls the wrapped callback. A callback is identified by a
  number (closures are compared by identity in \<open>indexOf\<close>); the trace of a dispatch is the
  list of callbacks invoked, in order, and the list of those whose exception was caught.
\<close>

datatype callback =
    Callback nat bool
  | OnceWrapper nat nat bool

text \<open>\<open>Callback c t\<close>: callback \<open>c\<close>, which throws iff \<open>t\<close>. \<open>OnceWrapper w c t\<close>: the
  closure \<open>w\<close> that \<open>once\<close> builds around callback \<open>c\<close>.\<close>

type_synonym eventEmitter = "string \<rightharpoonup> callback list"

definition new_eventEmitter :: eventEmitter where
  "new_eventEmitter = Map.empty"

definition on :: "eventEmitter \<Rightarrow> string \<Rightarrow> callback \<Rightarrow> eventEmitter" where
  "on em eventName cb =
     em(eventName \<mapsto> (case em eventName of None \<Rightarrow> [] | Some listeners \<Rightarrow> listeners) @ [cb])"

text \<open>The unsubscribe function \<open>on\<close> returns: \<open>indexOf\<close>, then \<open>splice(index, 1)\<close>.\<close>

definition unsubscribe :: "callback \<Rightarrow> callback list \<Rightarrow> callback list" where
  "unsubscribe cb listeners = remove1 cb listeners"

definition once :: "eventEmitter \<Rightarrow> string \<Rightarrow> nat \<Rightarrow> nat \<Rightarrow> bool \<Rightarrow> eventEmitter" where
  "once em eventName w c t = on em eventName (OnceWrapper w c t)"

text \<open>
  One call of a listener on the live array: the array afterwards, the callback that ran,
  and whether the call threw.
\<close>

fun call_listener :: "callback \<Rightarrow> callback list \<Rightarrow> callback list \<times> nat \<times> bool" where
  "call_listener (Callback c t) listeners = (listeners, c, t)"
| "call_listener (OnceWrapper w c t) listeners =
     (unsubscribe (OnceWrapper w c t) listeners, c, t)"

text \<open>
  \<open>listeners.forEach\<close>: the number of indices to visit is fixed when the loop starts (here
  the count \<open>n\<close> still to visit from index \<open>k\<close>); an index the array no longer has is
  skipped; a thrown exception is caught and logged and the loop goes on.
\<close>

fun forEach_listener ::
  "nat \<Rightarrow> nat \<Rightarrow> callback list \<Rightarrow> nat list \<Rightarrow> nat list
     \<Rightarrow> callback list \<times> nat list \<times> nat list" where
  "forEach_listener k 0 listeners invoked caught = (listeners, invoked, caught)"
| "forEach_listener k (Suc n) listeners invoked caught =
     (if k < length listeners then
        (case call_listener (listeners ! k) listeners of
           (listeners', c, threw) \<Rightarrow>
             forEach_listener (Suc k) n listeners' (invoked @ [c])
               (if threw then caught @ [c] else caught))
      else forEach_listener (Suc k) n listeners invoked caught)"

record emitted =
  returned :: bool
  invoked :: "nat list"
  caught :: "nat list"
  emitter_after :: eventEmitter

definition emit :: "eventEmitter \<Rightarrow> string \<Rightarrow> emitted" where
  "emit em eventName =
     (case em eventName of
        None \<Rightarrow> \<lparr> returned = False, invoked = [], caught = [], emitter_after = em \<rparr>
      | Some listeners \<Rightarrow>
          (case forEach_listener 0 (length listeners) listeners [] [] of
             (listeners', called, errors) \<Rightarrow>
               \<lparr> returned = (0 < length listeners'), invoked = called, caught = errors,
                 emitter_after = em(eventName \<mapsto> listeners') \<rparr>))"

fun callback_id :: "callback \<Rightarrow> nat" where
  "callback_id (Callback c t) = c"
| "callback_id (OnceWrapper w c t) = c"

fun callback_throws :: "callback \<Rightarrow> bool" where
  "callback_throws (Callback c t) = t"
| "callback_throws (OnceWrapper w c t) = t"

fun is_plain :: "callback \<Rightarrow> bool" where
  "is_plain (Callback c t) = True"
| "is_plain (OnceWrapper w c t) = False"

text \<open>
  Listeners registered with \<open>on\<close> that leave the emitter alone are all invoked, in
  registration order, a throwing one included, and the array is as it was.
\<close>

lemma forEach_listener_plain:
  "list_all is_plain listeners \<Longrightarrow> k + n = length listeners \<Longrightarrow>
   forEach_listener k n listeners called errors
     = (listeners,
        called @ map callback_id (drop k listeners),
        errors @ map callback_id (filter callback_throws (drop k listeners)))"
proof (induction n arbitrary: k called errors)
  case 0
  then show ?case by simp
next
  case (Suc n)
  then have k: "k < length listeners" by simp
  then have d: "drop k listeners = listeners ! k # drop (Suc k) listeners"
    by (simp add: Cons_nth_drop_Suc)
  from Suc.prems(1) k have "is_plain (listeners ! k)"
    by (simp add: list_all_length)
  then obtain c t where cb: "listeners ! k = Callback c t"
    by (cases "listeners ! k") simp_all
  have n: "Suc k + n = length listeners" using Suc.prems(2) by simp
  show ?case
    using k cb Suc.IH [OF Suc.prems(1) n] by (simp add: d)
qed

lemma emit_plain_listeners:
  assumes "em eventName = Some listeners" and "list_all is_plain listeners"
  shows "invoked (emit em eventName) = map callback_id listeners"
    and "returned (emit em eventName) = (listeners \<noteq> [])"
    and "caught (emit em eventName) = map callback_id (filter callback_throws listeners)"
  using assms forEach_listener_plain [of listeners 0 "length listeners" "[]" "[]"]
  by (simp_all add: emit_def)

text \<open>
  Claim C2 fails on the code where a listener was registered with the emitter's own
  \<open>once\<close>. The wrapper removes itself from the array the \<open>forEach\<close> is walking, so the
  listener registered after it moves down one index and is never visited; and the return
  value is computed from the array after the dispatch, so an event whose only listener was
  a \<open>once\<close> listener reports that it had none.

  Here callback 1 is subscribed with \<open>once\<close> (wrapper 0) and callback 2 with \<open>on\<close>: the
  dispatch invokes 1 only. With callback 1 alone, \<open>emit\<close> invokes it and returns false.
\<close>

theorem emit_after_once_skips_next_listener:
  "invoked (emit (on (once new_eventEmitter ''tick'' 0 1 False) ''tick'' (Callback 2 False))
              ''tick'') = [1]
   \<and> invoked (emit (once new_eventEmitter ''tick'' 0 1 False) ''tick'') = [1]
   \<and> returned (emit (once new_eventEmitter ''tick'' 0 1 False) ''tick'') = False"
  by (simp add: emit_def on_def once_def new_eventEmitter_def unsubscribe_def)

subsection \<open>Tools of the inventory and ToolDurability\<close>

definition set_tools :: "(string \<rightharpoonup> tool) \<Rightarrow> shop \<Rightarrow> shop" where
  "set_tools m s = s\<lparr> inventory := (inventory s)\<lparr> tools := m \<rparr> \<rparr>"

definition hasTool :: "shop \<Rightarrow> string \<Rightarrow> bool" where
  "hasTool s toolName = (tools (inventory s) toolName \<noteq> None)"

definition useTool :: "shop \<Rightarrow> string \<Rightarrow> num \<Rightarrow> bool \<times> shop" where
  "useTool s toolName usesAmount =
     (case tools (inventory s) toolName of
        None \<Rightarrow> (False, s)
      | Some t \<Rightarrow>
          let left = uses t - usesAmount;
              s1 = (if left \<le> 0
                    then publish (ToolBroken toolName)
                           (set_tools ((tools (inventory s))(toolName := None)) s)
                    else set_tools ((tools (inventory s))(toolName \<mapsto> t\<lparr> uses := left \<rparr>)) s)
          in (True, publish InventoryUpdated s1))"

definition defaultDurability :: "string \<Rightarrow> num" where
  "defaultDurability toolName =
     (if toolName = ''hammer'' then 30 else if toolName = ''anvil'' then 50
      else if toolName = ''tongs'' then 40 else if toolName = ''chisel'' then 25
      else if toolName = ''file'' then 35 else 30)"

definition addOrReplaceTool :: "shop \<Rightarrow> string \<Rightarrow> num option \<Rightarrow> bool \<times> shop" where
  "addOrReplaceTool s toolName maxUses_opt =
     (let m = (case maxUses_opt of None \<Rightarrow> defaultDurability toolName | Some v \<Rightarrow> v)
      in (True, publish InventoryUpdated
                  (set_tools ((tools (inventory s))(toolName \<mapsto> \<lparr> uses = m, maxUses = m \<rparr>)) s)))"

definition toolUsageCosts :: "string \<rightharpoonup> num" where
  "toolUsageCosts = [''simple'' \<mapsto> 1, ''medium'' \<mapsto> 2, ''complex'' \<mapsto> 3]"

definition toolRequirements :: "string \<rightharpoonup> string list" where
  "toolRequirements =
     [''metal'' \<mapsto> [''hammer'', ''tongs'', ''anvil''],
      ''weapon'' \<mapsto> [''hammer'', ''tongs'', ''anvil'', ''file''],
      ''wood'' \<mapsto> [''saw'', ''hammer''],
      ''leather'' \<mapsto> [''needle'', ''scissors'']]"

text \<open>\<open>x || d\<close> on an optional string: the default for a missing or empty one.\<close>

definition or_default :: "string option \<Rightarrow> string \<Rightarrow> string" where
  "or_default x d = (case x of None \<Rightarrow> d | Some v \<Rightarrow> if v = [] then d else v)"

definition getRequiredToolsForItem :: "itemData \<Rightarrow> string list" where
  "getRequiredToolsForItem item =
     (case toolRequirements (or_default (category item) ''metal'') of
        None \<Rightarrow> [''hammer'']
      | Some ts \<Rightarrow> ts)"

definition getMissingTools :: "shop \<Rightarrow> itemData \<Rightarrow> string list" where
  "getMissingTools s item = filter (\<lambda>t. \<not> hasTool s t) (getRequiredToolsForItem item)"

definition usageAmount :: "itemData \<Rightarrow> num" where
  "usageAmount item =
     (case toolUsageCosts (or_default (complexity item) ''medium'') of
        None \<Rightarrow> 1
      | Some v \<Rightarrow> if v = 0 then 1 else v)"

fun useTools :: "shop \<Rightarrow> string list \<Rightarrow> num \<Rightarrow> shop" where
  "useTools s [] amount = s"
| "useTools s (t # ts) amount =
     useTools (if hasTool s t then snd (useTool s t amount) else s) ts amount"

definition useToolsForItem :: "shop \<Rightarrow> itemData \<Rightarrow> shop" where
  "useToolsForItem s item = useTools s (getRequiredToolsForItem item) (usageAmount item)"

subsection \<open>CraftingSystem\<close>

definition set_crafting :: "craftingSystem \<Rightarrow> shop \<Rightarrow> shop" where
  "set_crafting c s = s\<lparr> crafting := c \<rparr>"

text \<open>
  The debit loop of \<open>startCrafting\<close>: each recipe amount times the requested quantity; a
  failed \<open>removeMaterial\<close> returns false at once, with the earlier debits made.
\<close>

fun debit_recipe :: "shop \<Rightarrow> (string \<times> num) list \<Rightarrow> num \<Rightarrow> bool \<times> shop" where
  "debit_recipe s [] qty = (True, s)"
| "debit_recipe s ((materialName, amount) # rest) qty =
     (case removeMaterial s materialName (amount * qty) of
        (False, _) \<Rightarrow> (False, s)
      | (True, s1) \<Rightarrow> debit_recipe s1 rest qty)"

definition num_or :: "num option \<Rightarrow> num \<Rightarrow> num" where
  "num_or x d = (case x of None \<Rightarrow> d | Some v \<Rightarrow> if v = 0 then d else v)"

definition startCrafting :: "shop \<Rightarrow> string \<Rightarrow> num \<Rightarrow> string option \<Rightarrow> bool \<times> shop" where
  "startCrafting s item_id qty worker =
     (case catalog s item_id of
        None \<Rightarrow> (False, publish (NotificationError item_id) s)
      | Some item \<Rightarrow>
          if \<not> unlocked item then (False, publish (NotificationError (item_name item)) s)
          else if getMissingTools s item \<noteq> []
          then (False, publish (NotificationError ''Missing tools'') s)
          else if \<not> hasMaterials s (requiredMaterials item)
          then (False, publish (NotificationError (item_name item)) s)
          else if \<not> hasEnoughCoal s 20
          then (False, publish (NotificationError (item_name item)) s)
          else
            let actualQuantity = num_or (batchSize item) 1 * qty in
            case debit_recipe s (requiredMaterials item) qty of
              (False, s1) \<Rightarrow> (False, s1)
            | (True, s1) \<Rightarrow>
                let s2 = snd (consumeCoal s1 (num_or (coalUsage item) 5));
                    job = \<lparr> itemId = item_id, job_name = item_name item,
                            job_craftingTime = craftingTime item, progress = 0,
                            quantity = actualQuantity, workerId = worker, paused = False,
                            pauseReason = None, job_itemData = item \<rparr>;
                    c = crafting s2
                in if currentCraft c \<noteq> None
                   then (True, publish (CraftingQueued job)
                                 (set_crafting (c\<lparr> craftingQueue := craftingQueue c @ [job] \<rparr>) s2))
                   else (True, publish (CraftingStarted job)
                                 (set_crafting (c\<lparr> currentCraft := Some job \<rparr>) s2)))"

text \<open>
  \<open>emit('storefront:add', itemId, quantity)\<close>: the storefront's listener moves the items
  from the inventory to the shop window.
\<close>

definition emit_storefront_add :: "string \<Rightarrow> num \<Rightarrow> shop \<Rightarrow> shop" where
  "emit_storefront_add item_id qty s =
     snd (addItemToStorefront (publish (StorefrontAdd item_id qty) s) item_id qty)"

text \<open>Promote the head of the queue, as \<open>craftingQueue.shift()\<close> does.\<close>

definition promote_next :: "shop \<Rightarrow> shop" where
  "promote_next s =
     (case craftingQueue (crafting s) of
        [] \<Rightarrow> s
      | job # rest \<Rightarrow>
          publish (CraftingStarted job)
            (set_crafting ((crafting s)\<lparr> currentCraft := Some job, craftingQueue := rest \<rparr>) s))"

definition completeCrafting :: "shop \<Rightarrow> shop" where
  "completeCrafting s =
     (case currentCraft (crafting s) of
        None \<Rightarrow> s
      | Some job \<Rightarrow>
          let item = job_itemData job;
              s1 = useToolsForItem s item;
              s2 = (case createsTool item of
                      Some t \<Rightarrow>
                        if t = [] then
                          (let s3 = publish (NotificationSuccess (job_name job))
                                      (publish (ItemCrafted (itemId job) (quantity job) (workerId job))
                                         (snd (addItem s1 (itemId job) (quantity job))))
                           in if autoAddToStorefront (crafting s3)
                              then emit_storefront_add (itemId job) (quantity job) s3 else s3)
                        else publish (NotificationSuccess (job_name job))
                               (snd (addOrReplaceTool s1 t None))
                    | None \<Rightarrow>
                        (let s3 = publish (NotificationSuccess (job_name job))
                                    (publish (ItemCrafted (itemId job) (quantity job) (workerId job))
                                       (snd (addItem s1 (itemId job) (quantity job))))
                         in if autoAddToStorefront (crafting s3)
                            then emit_storefront_add (itemId job) (quantity job) s3 else s3));
              s4 = set_crafting ((crafting s2)\<lparr> currentCraft := None \<rparr>) s2
          in if craftingQueue (crafting s4) \<noteq> [] then promote_next s4
             else publish CraftingQueueEmpty s4)"

definition CraftingSystem_update :: "shop \<Rightarrow> shop" where
  "CraftingSystem_update s =
     (if currentCraft (crafting s) = None \<and> craftingQueue (crafting s) = [] then s
      else
        let s0 = (if currentCraft (crafting s) = None then promote_next s else s) in
        case currentCraft (crafting s0) of
          None \<Rightarrow> s0
        | Some job \<Rightarrow>
            if paused job then s0
            else
              let job' = job\<lparr> progress := progress job + 1 * speedMultiplier (crafting s0) \<rparr>;
                  s1 = set_crafting ((crafting s0)\<lparr> currentCraft := Some job' \<rparr>) s0
              in if \<not> hasEnoughCoal s1 20 then pauseCrafting ''Not enough coal'' s1
                 else if job_craftingTime job' \<le> progress job' then completeCrafting s1
                 else publish (CraftingProgress (itemId job') (progress job') (job_craftingTime job')) s1)"

text \<open>The refund loop of \<open>cancelQueuedCraft\<close>: the recipe's amounts, as the job recorded them.\<close>

fun refund_all :: "shop \<Rightarrow> (string \<times> num) list \<Rightarrow> shop" where
  "refund_all s [] = s"
| "refund_all s ((materialName, amount) # rest) =
     refund_all (snd (addMaterial s materialName amount)) rest"

definition cancelQueuedCraft :: "shop \<Rightarrow> int \<Rightarrow> bool \<times> shop" where
  "cancelQueuedCraft s index =
     (let queue = craftingQueue (crafting s) in
      if index < 0 \<or> int (length queue) \<le> index then (False, s)
      else
        let job = queue ! nat index;
            s1 = refund_all s (requiredMaterials (job_itemData job));
            queue' = take (nat index) queue @ drop (Suc (nat index)) queue;
            s2 = set_crafting ((crafting s1)\<lparr> craftingQueue := queue' \<rparr>) s1
        in (True, publish (CraftingQueueUpdated queue')
                    (publish (NotificationInfo (job_name job)) s2)))"

text \<open>The job that \<open>startCrafting('nail', 1)\<close> creates: batch size 10 times quantity 1.\<close>

definition nail_job :: craftingJob where
  "nail_job = \<lparr> itemId = ''nail'', job_name = ''Nail'', job_craftingTime = 10, progress = 0,
                 quantity = 10, workerId = None, paused = False, pauseReason = None,
                 job_itemData = nail \<rparr>"

fun is_coal_consumed :: "event \<Rightarrow> bool" where
  "is_coal_consumed (CoalConsumed _) = True"
| "is_coal_consumed _ = False"

lemma consumeCoal_facts:
  assumes "amount \<le> level (coal s)" "0 < level (coal s) - amount"
  shows "fst (consumeCoal s amount)"
    and "level (coal (snd (consumeCoal s amount))) = level (coal s) - amount"
    and "inventory (snd (consumeCoal s amount)) = inventory s"
    and "crafting (snd (consumeCoal s amount)) = crafting s"
    and "storefront (snd (consumeCoal s amount)) = storefront s"
    and "catalog (snd (consumeCoal s amount)) = catalog s"
    and "\<exists>evs. log (snd (consumeCoal s amount)) = log s @ evs
               \<and> filter is_coal_consumed evs = [CoalConsumed amount]"
  using assms
  by (simp_all add: consumeCoal_def Let_def set_level_def set_warned_def publish_def
      emit_coal_updated_def)

lemma removeMaterial_facts:
  assumes "materials (inventory s) name = Some q" "q \<noteq> 0" "amount \<le> q"
  shows "fst (removeMaterial s name amount)"
    and "materials (inventory (snd (removeMaterial s name amount))) = (materials (inventory s))(name \<mapsto> q - amount)"
    and "items (inventory (snd (removeMaterial s name amount))) = items (inventory s)"
    and "tools (inventory (snd (removeMaterial s name amount))) = tools (inventory s)"
    and "coal (snd (removeMaterial s name amount)) = coal s"
    and "crafting (snd (removeMaterial s name amount)) = crafting s"
    and "storefront (snd (removeMaterial s name amount)) = storefront s"
    and "catalog (snd (removeMaterial s name amount)) = catalog s"
    and "log (snd (removeMaterial s name amount)) = log s @ [InventoryUpdated]"
  using assms
  by (simp_all add: removeMaterial_def Let_def set_materials_def publish_def)


lemma startCrafting_nail:
  assumes idle: "currentCraft (crafting s) = None"
      and cat: "catalog s ''nail'' = Some nail"
      and tools_ok: "getMissingTools s nail = []"
      and iron: "materials (inventory s) ''iron'' = Some q" "0.2 \<le> q"
      and fuel: "22 \<le> level (coal s)"
  shows "startCrafting s ''nail'' 1 None =
           (True, publish (CraftingStarted nail_job)
                    (set_crafting ((crafting s)\<lparr> currentCraft := Some nail_job \<rparr>)
                       (snd (consumeCoal (snd (removeMaterial s ''iron'' 0.2)) 2))))"
proof -
  define sa where "sa = snd (removeMaterial s ''iron'' 0.2)"
  have q: "q \<noteq> 0" "\<not> q < 0.2" using iron(2) by simp_all
  have rm: "removeMaterial s ''iron'' 0.2 = (True, sa)"
    using removeMaterial_facts(1) [OF iron(1) q(1) iron(2)] by (simp add: prod_eq_iff sa_def)
  have has: "hasMaterials s (requiredMaterials nail)"
    using iron(1) q by (simp add: hasMaterials_def nail_def)
  have enough: "hasEnoughCoal s 20" using fuel by (simp add: hasEnoughCoal_def)
  have debit: "debit_recipe s (requiredMaterials nail) 1 = (True, sa)"
    using rm by (simp add: nail_def)
  have craft_sa: "crafting sa = crafting s"
    unfolding sa_def using removeMaterial_facts(6) [OF iron(1) q(1) iron(2)] .
  have coal_sa: "coal sa = coal s"
    unfolding sa_def using removeMaterial_facts(5) [OF iron(1) q(1) iron(2)] .
  have craft_sb: "crafting (snd (consumeCoal sa 2)) = crafting s"
    using consumeCoal_facts(4) [of 2 sa] fuel coal_sa craft_sa by simp
  have fields: "unlocked nail" "item_name nail = ''Nail''" "craftingTime nail = 10"
    "num_or (batchSize nail) 1 = 10" "num_or (coalUsage nail) 5 = 2"
    by (simp_all add: nail_def num_or_def)
  have "startCrafting s ''nail'' 1 None =
           (True, publish (CraftingStarted nail_job)
                    (set_crafting ((crafting s)\<lparr> currentCraft := Some nail_job \<rparr>)
                       (snd (consumeCoal sa 2))))"
    unfolding startCrafting_def
    using cat tools_ok has enough debit craft_sb idle fields
    by (simp add: Let_def nail_job_def)
  then show ?thesis by (simp add: sa_def)
qed


text \<open>The log grew, and by no coal draw.\<close>

definition no_draw :: "shop \<Rightarrow> shop \<Rightarrow> bool" where
  "no_draw s s' = (\<exists>evs. log s' = log s @ evs \<and> filter is_coal_consumed evs = [])"

lemma no_draw_refl [simp]: "no_draw s s"
  by (simp add: no_draw_def)

lemma no_draw_trans: "no_draw s s' \<Longrightarrow> no_draw s' s'' \<Longrightarrow> no_draw s s''"
  by (auto simp: no_draw_def)

lemma no_draw_publish:
  "\<not> is_coal_consumed ev \<Longrightarrow> no_draw s s' \<Longrightarrow> no_draw s (publish ev s')"
  by (auto simp: no_draw_def publish_def)

lemma no_draw_published: "no_draw s s' \<Longrightarrow> filter is_coal_consumed (published s s') = []"
  by (auto simp: no_draw_def published_def)

lemma useTool_frame:
  "materials (inventory (snd (useTool s t a))) = materials (inventory s)"
  "items (inventory (snd (useTool s t a))) = items (inventory s)"
  "coal (snd (useTool s t a)) = coal s"
  "crafting (snd (useTool s t a)) = crafting s"
  "storefront (snd (useTool s t a)) = storefront s"
  "catalog (snd (useTool s t a)) = catalog s"
  "no_draw s (snd (useTool s t a))"
  by (simp_all add: useTool_def Let_def set_tools_def publish_def no_draw_def split: option.splits)

lemma useTools_frame:
  "materials (inventory (useTools s ts a)) = materials (inventory s)
   \<and> items (inventory (useTools s ts a)) = items (inventory s)
   \<and> coal (useTools s ts a) = coal s
   \<and> crafting (useTools s ts a) = crafting s
   \<and> storefront (useTools s ts a) = storefront s
   \<and> catalog (useTools s ts a) = catalog s
   \<and> no_draw s (useTools s ts a)"
proof (induction ts arbitrary: s)
  case Nil
  then show ?case by simp
next
  case (Cons t ts)
  let ?s1 = "if hasTool s t then snd (useTool s t a) else s"
  have step: "materials (inventory ?s1) = materials (inventory s)"
    "items (inventory ?s1) = items (inventory s)" "coal ?s1 = coal s"
    "crafting ?s1 = crafting s" "storefront ?s1 = storefront s" "catalog ?s1 = catalog s"
    "no_draw s ?s1"
    by (simp_all add: useTool_frame)
  from Cons.IH [of ?s1] step show ?case
    by (auto intro: no_draw_trans)
qed

lemma CraftingSystem_update_progress:
  assumes "currentCraft (crafting s) = Some job" "\<not> paused job" "hasEnoughCoal s 20"
      and "progress job + speedMultiplier (crafting s) < job_craftingTime job"
  shows "CraftingSystem_update s =
           publish (CraftingProgress (itemId job) (progress job + speedMultiplier (crafting s))
                      (job_craftingTime job))
             (set_crafting ((crafting s)\<lparr> currentCraft :=
                Some (job\<lparr> progress := progress job + speedMultiplier (crafting s) \<rparr>) \<rparr>) s)"
  using assms
  by (simp add: CraftingSystem_update_def Let_def set_crafting_def hasEnoughCoal_def)

lemma CraftingSystem_update_complete:
  assumes cur: "currentCraft (crafting s) = Some job" "\<not> paused job"
      and fuel: "hasEnoughCoal s 20"
      and due: "job_craftingTime job \<le> progress job + speedMultiplier (crafting s)"
      and rest: "craftingQueue (crafting s) = []" "createsTool (job_itemData job) = None"
                "\<not> autoAddToStorefront (crafting s)" "0 < quantity job"
  shows "currentCraft (crafting (CraftingSystem_update s)) = None"
    and "items (inventory (CraftingSystem_update s)) =
           (items (inventory s))(itemId job \<mapsto>
              (case items (inventory s) (itemId job) of None \<Rightarrow> 0 | Some n \<Rightarrow> n) + quantity job)"
    and "materials (inventory (CraftingSystem_update s)) = materials (inventory s)"
    and "coal (CraftingSystem_update s) = coal s"
    and "no_draw s (CraftingSystem_update s)"
proof -
  define job' where "job' = job\<lparr> progress := progress job + speedMultiplier (crafting s) \<rparr>"
  define s1 where "s1 = set_crafting ((crafting s)\<lparr> currentCraft := Some job' \<rparr>) s"
  define s2 where "s2 = useToolsForItem s1 (job_itemData job)"
  have upd: "CraftingSystem_update s = completeCrafting s1"
    using cur fuel due
    by (simp add: CraftingSystem_update_def Let_def set_crafting_def hasEnoughCoal_def s1_def job'_def)
  have s1: "inventory s1 = inventory s" "coal s1 = coal s" "log s1 = log s"
    "crafting s1 = (crafting s)\<lparr> currentCraft := Some job' \<rparr>"
    by (simp_all add: s1_def set_crafting_def)
  have s2: "materials (inventory s2) = materials (inventory s)"
    "items (inventory s2) = items (inventory s)" "coal s2 = coal s"
    "crafting s2 = (crafting s)\<lparr> currentCraft := Some job' \<rparr>" "no_draw s1 s2"
    using useTools_frame [of s1 "getRequiredToolsForItem (job_itemData job)"
        "usageAmount (job_itemData job)"] s1
    by (simp_all add: s2_def useToolsForItem_def)
  have job': "job_itemData job' = job_itemData job" "itemId job' = itemId job"
    "quantity job' = quantity job" "job_name job' = job_name job" "workerId job' = workerId job"
    by (simp_all add: job'_def)
  have cc: "completeCrafting s1 =
      publish CraftingQueueEmpty
        (set_crafting ((crafting s)\<lparr> currentCraft := None \<rparr>)
          (publish (NotificationSuccess (job_name job))
             (publish (ItemCrafted (itemId job) (quantity job) (workerId job))
                (snd (addItem s2 (itemId job) (quantity job))))))"
    using rest s1 s2(4) job'
    by (simp add: completeCrafting_def Let_def s2_def [symmetric] addItem_def set_crafting_def
        publish_def set_items_def)
  have nd1: "no_draw s s2" using s2(5) s1(3) by (simp add: no_draw_def)
  show "currentCraft (crafting (CraftingSystem_update s)) = None"
    by (simp add: upd cc publish_def set_crafting_def)
  show "items (inventory (CraftingSystem_update s)) =
           (items (inventory s))(itemId job \<mapsto>
              (case items (inventory s) (itemId job) of None \<Rightarrow> 0 | Some n \<Rightarrow> n) + quantity job)"
    using rest(4) s2(2)
    by (simp add: upd cc publish_def set_crafting_def addItem_def Let_def set_items_def)
  show "materials (inventory (CraftingSystem_update s)) = materials (inventory s)"
    using rest(4) s2(1)
    by (simp add: upd cc publish_def set_crafting_def addItem_def Let_def set_items_def)
  show "coal (CraftingSystem_update s) = coal s"
    using rest(4) s2(3)
    by (simp add: upd cc publish_def set_crafting_def addItem_def Let_def set_items_def)
  show "no_draw s (CraftingSystem_update s)"
    using rest(4) nd1
    by (auto simp: upd cc publish_def set_crafting_def addItem_def Let_def set_items_def
        no_draw_def)
qed


lemma CraftingSystem_update_progress_n:
  assumes "currentCraft (crafting s) = Some job" "\<not> paused job" "hasEnoughCoal s 20"
      and "speedMultiplier (crafting s) = 1"
      and "progress job + of_nat n < job_craftingTime job"
  shows "\<exists>evs. (CraftingSystem_update ^^ n) s =
            s\<lparr> crafting := (crafting s)\<lparr> currentCraft :=
                   Some (job\<lparr> progress := progress job + of_nat n \<rparr>) \<rparr>,
               log := log s @ evs \<rparr>
          \<and> filter is_coal_consumed evs = []"
  using assms(5)
proof (induction n)
  case 0
  have "(crafting s)\<lparr> currentCraft := Some job \<rparr> = crafting s"
    using assms(1) by (cases "crafting s") simp
  then have "s = s\<lparr> crafting := (crafting s)\<lparr> currentCraft :=
                   Some (job\<lparr> progress := progress job + of_nat 0 \<rparr>) \<rparr>,
               log := log s @ [] \<rparr>"
    by simp
  then show ?case by (intro exI [of _ "[]"]) simp
next
  case (Suc n)
  then have "progress job + of_nat n < job_craftingTime job" by simp
  with Suc.IH obtain evs where
    sn: "(CraftingSystem_update ^^ n) s =
            s\<lparr> crafting := (crafting s)\<lparr> currentCraft :=
                   Some (job\<lparr> progress := progress job + of_nat n \<rparr>) \<rparr>,
               log := log s @ evs \<rparr>"
    and evs: "filter is_coal_consumed evs = []"
    by blast
  define jn where "jn = job\<lparr> progress := progress job + of_nat n \<rparr>"
  define sn where "sn = s\<lparr> crafting := (crafting s)\<lparr> currentCraft := Some jn \<rparr>,
                           log := log s @ evs \<rparr>"
  have a: "currentCraft (crafting sn) = Some jn" "\<not> paused jn" "hasEnoughCoal sn 20"
    "speedMultiplier (crafting sn) = 1"
    using assms(2,3,4) by (simp_all add: sn_def jn_def hasEnoughCoal_def)
  have b: "progress jn + speedMultiplier (crafting sn) < job_craftingTime jn"
    using Suc.prems a(4) by (simp add: jn_def algebra_simps)
  have "(CraftingSystem_update ^^ Suc n) s = CraftingSystem_update sn"
    by (simp add: sn sn_def jn_def)
  also have "\<dots> = s\<lparr> crafting := (crafting s)\<lparr> currentCraft :=
                   Some (job\<lparr> progress := progress job + of_nat (Suc n) \<rparr>) \<rparr>,
               log := log s @ (evs @ [CraftingProgress (itemId job)
                                        (progress job + of_nat (Suc n)) (job_craftingTime job)]) \<rparr>"
    using CraftingSystem_update_progress [OF a(1,2,3) b] a(4)
    by (simp add: sn_def jn_def publish_def set_crafting_def algebra_simps)
  finally show ?case using evs by auto
qed


text \<open>
  Claim C3, with the preconditions the code checks. Let no craft be active and the queue
  empty, the catalog hold the nail recipe, the tools of a metal item (hammer, tongs, anvil)
  be present, at least 0.2 iron be in stock, the forge stay at or above 20 after the draw
  (level at least 22), the speed multiplier be 1 and auto-add to the storefront be off.
  Then \<open>startCrafting('nail', 1)\<close> succeeds and the job is the active one at once; exactly
  0.2 iron is debited and the forge level drops by the recipe's coal usage of 2; after nine
  calls of \<open>update()\<close> the job is still active with progress 9; the tenth call completes it:
  no job is active, the inventory holds 10 more nails, and between the call of
  \<open>startCrafting\<close> and the end the only coal draw published is the one of 2.
\<close>

theorem nail_job_completes_after_ten_updates:
  assumes idle: "currentCraft (crafting s) = None" "craftingQueue (crafting s) = []"
      and cat: "catalog s ''nail'' = Some nail"
      and tools_ok: "getMissingTools s nail = []"
      and iron: "materials (inventory s) ''iron'' = Some q" "0.2 \<le> q"
      and fuel: "22 \<le> level (coal s)"
      and speed: "speedMultiplier (crafting s) = 1"
      and manual: "\<not> autoAddToStorefront (crafting s)"
  shows "fst (startCrafting s ''nail'' 1 None)
       \<and> currentCraft (crafting (snd (startCrafting s ''nail'' 1 None))) = Some nail_job
       \<and> materials (inventory (snd (startCrafting s ''nail'' 1 None)))
           = (materials (inventory s))(''iron'' \<mapsto> q - 0.2)
       \<and> level (coal (snd (startCrafting s ''nail'' 1 None))) = level (coal s) - 2
       \<and> currentCraft (crafting ((CraftingSystem_update ^^ 9) (snd (startCrafting s ''nail'' 1 None))))
           = Some (nail_job\<lparr> progress := 9 \<rparr>)
       \<and> currentCraft (crafting ((CraftingSystem_update ^^ 10) (snd (startCrafting s ''nail'' 1 None))))
           = None
       \<and> items (inventory ((CraftingSystem_update ^^ 10) (snd (startCrafting s ''nail'' 1 None))))
           = (items (inventory s))(''nail'' \<mapsto>
                (case items (inventory s) ''nail'' of None \<Rightarrow> 0 | Some n \<Rightarrow> n) + 10)
       \<and> materials (inventory ((CraftingSystem_update ^^ 10) (snd (startCrafting s ''nail'' 1 None))))
           = (materials (inventory s))(''iron'' \<mapsto> q - 0.2)
       \<and> level (coal ((CraftingSystem_update ^^ 10) (snd (startCrafting s ''nail'' 1 None))))
           = level (coal s) - 2
       \<and> filter is_coal_consumed
            (published s ((CraftingSystem_update ^^ 10) (snd (startCrafting s ''nail'' 1 None))))
           = [CoalConsumed 2]"
proof -
  define sa where "sa = snd (removeMaterial s ''iron'' 0.2)"
  define sb where "sb = snd (consumeCoal sa 2)"
  define s1 where "s1 = publish (CraftingStarted nail_job)
                    (set_crafting ((crafting s)\<lparr> currentCraft := Some nail_job \<rparr>) sb)"
  have q: "q \<noteq> 0" using iron(2) by auto
  note rm = removeMaterial_facts [OF iron(1) q iron(2), folded sa_def]
  have fuel_sa: "2 \<le> level (coal sa)" "0 < level (coal sa) - 2"
    using fuel rm(5) by simp_all
  note cc = consumeCoal_facts [OF fuel_sa, folded sb_def]
  have start: "startCrafting s ''nail'' 1 None = (True, s1)"
    using startCrafting_nail [OF idle(1) cat tools_ok iron fuel]
    by (simp add: s1_def sb_def sa_def)
  obtain evs_coal where log_sb: "log sb = log sa @ evs_coal"
    and evs_coal: "filter is_coal_consumed evs_coal = [CoalConsumed 2]"
    using cc(7) by blast
  have s1: "currentCraft (crafting s1) = Some nail_job" "craftingQueue (crafting s1) = []"
    "speedMultiplier (crafting s1) = 1" "\<not> autoAddToStorefront (crafting s1)"
    "materials (inventory s1) = (materials (inventory s))(''iron'' \<mapsto> q - 0.2)"
    "items (inventory s1) = items (inventory s)"
    "level (coal s1) = level (coal s) - 2"
    "log s1 = log s @ ([InventoryUpdated] @ evs_coal @ [CraftingStarted nail_job])"
    using idle(2) speed manual rm cc(2,3) log_sb
    by (simp_all add: s1_def publish_def set_crafting_def)
  have fuel1: "hasEnoughCoal s1 20" using fuel s1(7) by (simp add: hasEnoughCoal_def)
  have job0: "\<not> paused nail_job" "progress nail_job = 0" "job_craftingTime nail_job = 10"
    "itemId nail_job = ''nail''" "quantity nail_job = 10"
    "createsTool (job_itemData nail_job) = None"
    by (simp_all add: nail_job_def nail_def)
  have "progress nail_job + of_nat 9 < job_craftingTime nail_job"
    by (simp add: job0)
  from CraftingSystem_update_progress_n [OF s1(1) job0(1) fuel1 s1(3) this]
  obtain evs9 where
    s9: "(CraftingSystem_update ^^ 9) s1 =
           s1\<lparr> crafting := (crafting s1)\<lparr> currentCraft := Some (nail_job\<lparr> progress := 9 \<rparr>) \<rparr>,
               log := log s1 @ evs9 \<rparr>"
    and evs9: "filter is_coal_consumed evs9 = []"
    by (auto simp: job0)
  define s9 where "s9 = (CraftingSystem_update ^^ 9) s1"
  define job9 where "job9 = nail_job\<lparr> progress := 9 \<rparr>"
  have s9_facts: "currentCraft (crafting s9) = Some job9" "craftingQueue (crafting s9) = []"
    "speedMultiplier (crafting s9) = 1" "\<not> autoAddToStorefront (crafting s9)"
    "inventory s9 = inventory s1" "coal s9 = coal s1" "log s9 = log s1 @ evs9"
    using s1(2,3,4) by (simp_all add: s9_def s9 job9_def)
  have fuel9: "hasEnoughCoal s9 20" using fuel1 s9_facts(6) by (simp add: hasEnoughCoal_def)
  have job9: "\<not> paused job9" "job_craftingTime job9 \<le> progress job9 + speedMultiplier (crafting s9)"
    "createsTool (job_itemData job9) = None" "0 < quantity job9" "itemId job9 = ''nail''"
    "quantity job9 = 10"
    using s9_facts(3) by (simp_all add: job9_def job0)
  have "(10::nat) = Suc 9" by simp
  then have ten: "(CraftingSystem_update ^^ 10) s1 = CraftingSystem_update s9"
    by (simp only: funpow.simps o_apply s9_def)
  note fin = CraftingSystem_update_complete
    [OF s9_facts(1) job9(1) fuel9 job9(2) s9_facts(2) job9(3) s9_facts(4) job9(4), folded ten]
  obtain evs10 where log10: "log ((CraftingSystem_update ^^ 10) s1) = log s9 @ evs10"
    and evs10: "filter is_coal_consumed evs10 = []"
    using fin(5) by (auto simp: no_draw_def)
  have draws: "filter is_coal_consumed (published s ((CraftingSystem_update ^^ 10) s1))
                 = [CoalConsumed 2]"
    by (simp add: published_def log10 s9_facts(7) s1(8) evs_coal evs9 evs10)
  show ?thesis
    unfolding start fst_conv snd_conv
    using s1(1,5,7) s9_facts(1) fin(1,2,3,4) draws
    by (simp add: job9 job9_def job0 s9_def [symmetric] s9_facts(5,6) s1(5,6,7))
qed

definition scarce_iron_shop :: shop where
  "scarce_iron_shop = set_materials [''iron'' \<mapsto> 0.1, ''coal'' \<mapsto> 25] (new_shop basic_items)"

text \<open>
  Claim C3 as stated fails: an idle queue and a full forge do not make \<open>startCrafting\<close>
  succeed. With 0.1 iron in stock the call reports the missing material and returns false,
  and no job becomes active.
\<close>

theorem startCrafting_nail_needs_iron:
  "currentCraft (crafting scarce_iron_shop) = None
   \<and> craftingQueue (crafting scarce_iron_shop) = []
   \<and> level (coal scarce_iron_shop) = 100
   \<and> fst (startCrafting scarce_iron_shop ''nail'' 1 None) = False
   \<and> currentCraft (crafting (snd (startCrafting scarce_iron_shop ''nail'' 1 None))) = None"
  by (simp add: scarce_iron_shop_def set_materials_def new_shop_def new_crafting_def new_coal_def
      new_inventory_def startCrafting_def basic_items_def nail_def getMissingTools_def
      getRequiredToolsForItem_def toolRequirements_def or_default_def hasTool_def
      hasMaterials_def publish_def)

text \<open>The constructor's shop meets the preconditions: Scenario 2.\<close>

theorem nail_job_completes_after_ten_updates_witness:
  "currentCraft (crafting (new_shop basic_items)) = None
   \<and> craftingQueue (crafting (new_shop basic_items)) = []
   \<and> catalog (new_shop basic_items) ''nail'' = Some nail
   \<and> getMissingTools (new_shop basic_items) nail = []
   \<and> materials (inventory (new_shop basic_items)) ''iron'' = Some 50
   \<and> fst (startCrafting (new_shop basic_items) ''nail'' 1 None)
   \<and> items (inventory ((CraftingSystem_update ^^ 10)
                         (snd (startCrafting (new_shop basic_items) ''nail'' 1 None)))) ''nail''
       = Some 10
   \<and> materials (inventory ((CraftingSystem_update ^^ 10)
                         (snd (startCrafting (new_shop basic_items) ''nail'' 1 None)))) ''iron''
       = Some 49.8
   \<and> level (coal ((CraftingSystem_update ^^ 10)
                         (snd (startCrafting (new_shop basic_items) ''nail'' 1 None)))) = 98"
proof -
  have h: "currentCraft (crafting (new_shop basic_items)) = None"
    "craftingQueue (crafting (new_shop basic_items)) = []"
    "catalog (new_shop basic_items) ''nail'' = Some nail"
    "getMissingTools (new_shop basic_items) nail = []"
    "materials (inventory (new_shop basic_items)) ''iron'' = Some 50"
    "(0.2::rat) \<le> 50"
    "22 \<le> level (coal (new_shop basic_items))"
    "speedMultiplier (crafting (new_shop basic_items)) = 1"
    "\<not> autoAddToStorefront (crafting (new_shop basic_items))"
    by (simp_all add: new_shop_def new_crafting_def new_coal_def new_inventory_def
        basic_items_def nail_def getMissingTools_def getRequiredToolsForItem_def
        toolRequirements_def or_default_def hasTool_def)
  have none: "items (inventory (new_shop basic_items)) ''nail'' = None"
    "level (coal (new_shop basic_items)) = 100"
    by (simp_all add: new_shop_def new_inventory_def new_coal_def)
  from nail_job_completes_after_ten_updates [OF h] h(1-5) none
  show ?thesis by simp
qed

lemma refund_all_frame:
  "crafting (refund_all s required) = crafting s
   \<and> tools (inventory (refund_all s required)) = tools (inventory s)
   \<and> items (inventory (refund_all s required)) = items (inventory s)
   \<and> coal (refund_all s required) = coal s"
proof (induction required arbitrary: s)
  case Nil
  then show ?case by simp
next
  case (Cons entry rest)
  obtain name amount where entry: "entry = (name, amount)" by (cases entry)
  have "crafting (snd (addMaterial s name amount)) = crafting s"
    "tools (inventory (snd (addMaterial s name amount))) = tools (inventory s)"
    "items (inventory (snd (addMaterial s name amount))) = items (inventory s)"
    "coal (snd (addMaterial s name amount)) = coal s"
    by (simp_all add: addMaterial_def Let_def publish_def set_materials_def)
  with Cons.IH [of "snd (addMaterial s name amount)"] entry show ?case by simp
qed

text \<open>
  What \<open>cancelQueuedCraft\<close> does keep: on a valid index it removes the job at that index
  and no other, and leaves the active job, the tools, the crafted items and the forge alone.
\<close>

lemma cancelQueuedCraft_frame:
  assumes "0 \<le> index" "index < int (length (craftingQueue (crafting s)))"
  shows "fst (cancelQueuedCraft s index)"
    and "craftingQueue (crafting (snd (cancelQueuedCraft s index)))
           = take (nat index) (craftingQueue (crafting s))
             @ drop (Suc (nat index)) (craftingQueue (crafting s))"
    and "currentCraft (crafting (snd (cancelQueuedCraft s index))) = currentCraft (crafting s)"
    and "tools (inventory (snd (cancelQueuedCraft s index))) = tools (inventory s)"
    and "coal (snd (cancelQueuedCraft s index)) = coal s"
  using assms
    refund_all_frame [of s "requiredMaterials (job_itemData (craftingQueue (crafting s) ! nat index))"]
  by (simp_all add: cancelQueuedCraft_def Let_def set_crafting_def publish_def)

definition busy_shop :: shop where
  "busy_shop = snd (startCrafting (new_shop basic_items) ''nail'' 1 None)"

definition hinges_queued :: shop where
  "hinges_queued = snd (startCrafting busy_shop ''hinge'' 2 None)"

text \<open>
  Claim C5 fails on the code for a job of quantity above 1. \<open>startCrafting\<close> debits each
  recipe amount times the quantity, but the job records only the recipe, and
  \<open>cancelQueuedCraft\<close> (whose comment reads "Refund all materials (100%)") credits each
  recipe amount once. While a nail job is active, two hinges are queued for 2 iron
  (49.8 to 47.8); cancelling that queued job returns 1 iron (48.8), not 2.
\<close>

theorem cancelQueuedCraft_refunds_one_unit:
  "materials (inventory busy_shop) ''iron'' = Some 49.8
   \<and> fst (startCrafting busy_shop ''hinge'' 2 None)
   \<and> materials (inventory hinges_queued) ''iron'' = Some 47.8
   \<and> map itemId (craftingQueue (crafting hinges_queued)) = [''hinge'']
   \<and> fst (cancelQueuedCraft hinges_queued 0)
   \<and> craftingQueue (crafting (snd (cancelQueuedCraft hinges_queued 0))) = []
   \<and> materials (inventory (snd (cancelQueuedCraft hinges_queued 0))) ''iron'' = Some 48.8"
  by code_simp

subsection \<open>WorkerSystem\<close>

record workerType =
  type_name :: string
  baseSalary :: num
  crafting_speedMultiplier :: num
  fatigueRate :: num
  recoveryRate :: num
  maxFatigue :: num
  hireCost :: num

definition apprentice :: workerType where
  "apprentice = \<lparr> type_name = ''Apprentice'', baseSalary = 5, crafting_speedMultiplier = 0.8,
                   fatigueRate = 1.2, recoveryRate = 1, maxFatigue = 100, hireCost = 20 \<rparr>"

definition journeyman :: workerType where
  "journeyman = \<lparr> type_name = ''Journeyman'', baseSalary = 8, crafting_speedMultiplier = 1,
                    fatigueRate = 1, recoveryRate = 1.2, maxFatigue = 120, hireCost = 50 \<rparr>"

definition master :: workerType where
  "master = \<lparr> type_name = ''Master Blacksmith'', baseSalary = 15, crafting_speedMultiplier = 1.3,
                fatigueRate = 0.8, recoveryRate = 1.5, maxFatigue = 150, hireCost = 100 \<rparr>"

datatype task = CraftingTask string | CoalTask

record worker =
  worker_id :: string
  worker_name :: string
  workerType :: workerType
  fatigue :: num
  salary :: num
  currentTask :: "task option"
  status :: string
  resting :: bool
  highFatigueWarning :: bool
  wasResting :: bool

text \<open>The worker object \<open>hireWorker\<close> creates, given the generated id and name.\<close>

definition hired :: "string \<Rightarrow> string \<Rightarrow> workerType \<Rightarrow> worker" where
  "hired wid name wt =
     \<lparr> worker_id = wid, worker_name = name, workerType = wt, fatigue = 0,
       salary = baseSalary wt, currentTask = None, status = ''idle'', resting = False,
       highFatigueWarning = False, wasResting = False \<rparr>"

definition canCraft :: "shop \<Rightarrow> string \<Rightarrow> bool \<times> string option" where
  "canCraft s item_id =
     (case catalog s item_id of
        None \<Rightarrow> (False, Some ''Unknown item'')
      | Some item \<Rightarrow>
          if \<not> unlocked item then (False, Some ''Blueprint not unlocked'')
          else if getMissingTools s item \<noteq> [] then (False, Some ''Missing tools'')
          else if \<not> hasMaterials s (requiredMaterials item)
          then (False, Some ''Not enough materials'')
          else if \<not> hasEnoughCoal s 20 then (False, Some ''Not enough coal'')
          else (True, None))"

definition setSpeedMultiplier :: "num \<Rightarrow> shop \<Rightarrow> shop" where
  "setSpeedMultiplier m s = s\<lparr> crafting := (crafting s)\<lparr> speedMultiplier := m \<rparr> \<rparr>"

text \<open>\<open>emit('crafting:start', ...)\<close> reaches the crafting system's listener, which calls
  \<open>startCrafting\<close>; \<open>emit('worker:refill-coal', name)\<close> reaches the forge's, which refills
  and reports a success.\<close>

definition emit_crafting_start :: "string \<Rightarrow> num \<Rightarrow> string option \<Rightarrow> shop \<Rightarrow> shop" where
  "emit_crafting_start item_id qty wid s =
     snd (startCrafting (publish (CraftingStart item_id qty wid) s) item_id qty wid)"

definition emit_worker_refill_coal :: "string \<Rightarrow> shop \<Rightarrow> shop" where
  "emit_worker_refill_coal name s =
     (case refill (publish (WorkerRefillCoal name) s) of
        (True, s1) \<Rightarrow> publish (NotificationInfo name) s1
      | (False, s1) \<Rightarrow> s1)"

definition handleCraftingTask :: "shop \<Rightarrow> worker \<Rightarrow> shop \<times> worker" where
  "handleCraftingTask s w =
     (case currentTask w of
        Some (CraftingTask item_id) \<Rightarrow>
          if currentCraft (crafting s) = None \<and> length (craftingQueue (crafting s)) = 0 then
            (if fst (canCraft s item_id) then
               let originalSpeedMultiplier = speedMultiplier (crafting s);
                   s1 = setSpeedMultiplier (crafting_speedMultiplier (workerType w)) s;
                   s2 = emit_crafting_start item_id 1 (Some (worker_id w)) s1
               in (setSpeedMultiplier originalSpeedMultiplier s2, w)
             else (publish (NotificationWarning (worker_name w)) s,
                   w\<lparr> currentTask := None, status := ''idle'' \<rparr>))
          else (s, w)
      | _ \<Rightarrow> (s, w))"

definition handleCoalTask :: "shop \<Rightarrow> worker \<Rightarrow> shop \<times> worker" where
  "handleCoalTask s w =
     (if level (coal s) \<le> 20 then (emit_worker_refill_coal (worker_name w) s, w) else (s, w))"

definition setWorkerResting :: "shop \<Rightarrow> worker \<Rightarrow> bool \<Rightarrow> shop \<times> worker" where
  "setWorkerResting s w r =
     (if r then (publish (WorkerResting (worker_id w)) s,
                 w\<lparr> resting := True, status := ''Resting'', currentTask := None \<rparr>)
      else (publish (WorkerWorking (worker_id w)) s,
            w\<lparr> resting := False, status := ''Idle'' \<rparr>))"

definition increaseFatigue :: "shop \<Rightarrow> worker \<Rightarrow> shop \<times> worker" where
  "increaseFatigue s w =
     (let fatigueIncrease =
            (case currentTask w of
               None \<Rightarrow> 0.1
             | Some (CraftingTask _) \<Rightarrow> 0.2 * fatigueRate (workerType w)
             | Some CoalTask \<Rightarrow> 0.05);
          f1 = fatigue w + fatigueIncrease;
          f2 = (if maxFatigue (workerType w) < f1 then maxFatigue (workerType w) else f1);
          w1 = w\<lparr> fatigue := f2 \<rparr>
      in if maxFatigue (workerType w) * 0.8 \<le> f2 \<and> \<not> highFatigueWarning w1
         then (publish (NotificationWarning (worker_name w)) s, w1\<lparr> highFatigueWarning := True \<rparr>)
         else (s, w1))"

definition recoverFatigue :: "shop \<Rightarrow> worker \<Rightarrow> shop \<times> worker" where
  "recoverFatigue s w =
     (let f1 = fatigue w - 0.2 * recoveryRate (workerType w);
          f2 = (if f1 < 0 then 0 else f1);
          w1 = w\<lparr> fatigue := f2 \<rparr>;
          w2 = (if f2 < maxFatigue (workerType w) * 0.5
                then w1\<lparr> highFatigueWarning := False \<rparr> else w1);
          (s3, w3) = (if f2 = 0 \<and> wasResting w2
                      then (publish (NotificationInfo (worker_name w)) s, w2\<lparr> wasResting := False \<rparr>)
                      else (s, w2))
      in (s3, if 0 < f2 then w3\<lparr> wasResting := True \<rparr> else w3))"

definition updateWorker :: "shop \<Rightarrow> worker \<Rightarrow> shop \<times> worker" where
  "updateWorker s w =
     (if resting w then recoverFatigue s w
      else if maxFatigue (workerType w) \<le> fatigue w then
        (case setWorkerResting s w True of
           (s1, w1) \<Rightarrow> (publish (NotificationWarning (worker_name w)) s1, w1))
      else
        case currentTask w of
          None \<Rightarrow> (s, w)
        | Some t \<Rightarrow>
            (case (case t of CraftingTask _ \<Rightarrow> handleCraftingTask s w
                           | CoalTask \<Rightarrow> handleCoalTask s w) of
               (s1, w1) \<Rightarrow> increaseFatigue s1 w1))"

text \<open>The loop of \<open>update()\<close> over the hired workers, in the order of \<open>Object.entries\<close>.\<close>

fun updateWorkers :: "shop \<Rightarrow> (string \<times> worker) list \<Rightarrow> shop \<times> (string \<times> worker) list" where
  "updateWorkers s [] = (s, [])"
| "updateWorkers s ((wid, w) # rest) =
     (case updateWorker s w of
        (s1, w1) \<Rightarrow>
          (case updateWorkers s1 rest of (s2, rest') \<Rightarrow> (s2, (wid, w1) # rest')))"

text \<open>Hiring discounts: worker type (or \<open>all\<close>), multiplier, expiry instant.\<close>

record workerSystem =
  workers :: "(string \<times> worker) list"
  hiringDiscounts :: "(string \<times> num \<times> int) list"

definition updateHiringDiscounts :: "shop \<Rightarrow> (string \<times> num \<times> int) list \<Rightarrow> int
    \<Rightarrow> shop \<times> (string \<times> num \<times> int) list" where
  "updateHiringDiscounts s ds now =
     (foldl (\<lambda>s' (typeId, m, expiry). publish (NotificationInfo typeId) s') s
            (filter (\<lambda>(typeId, m, expiry). expiry \<le> now) ds),
      filter (\<lambda>(typeId, m, expiry). \<not> expiry \<le> now) ds)"

definition WorkerSystem_update :: "shop \<Rightarrow> workerSystem \<Rightarrow> int \<Rightarrow> shop \<times> workerSystem" where
  "WorkerSystem_update s ws now =
     (case updateWorkers s (workers ws) of
        (s1, workers') \<Rightarrow>
          (case updateHiringDiscounts s1 (hiringDiscounts ws) now of
             (s2, discounts') \<Rightarrow> (s2, \<lparr> workers = workers', hiringDiscounts = discounts' \<rparr>)))"

lemma updateWorker_idle:
  "\<not> resting w \<Longrightarrow> fatigue w < maxFatigue (workerType w) \<Longrightarrow> currentTask w = None \<Longrightarrow>
   updateWorker s w = (s, w)"
  by (simp add: updateWorker_def)

lemma updateWorker_coal_task:
  assumes "\<not> resting w" "fatigue w < maxFatigue (workerType w)" "currentTask w = Some CoalTask"
  shows "fatigue (snd (updateWorker s w)) = min (maxFatigue (workerType w)) (fatigue w + 0.05)"
    and "currentTask (snd (updateWorker s w)) = Some CoalTask"
  using assms
  by (simp_all add: updateWorker_def handleCoalTask_def increaseFatigue_def Let_def min_def
      split: prod.splits)

lemma updateWorker_crafting_task_kept:
  assumes "\<not> resting w" "fatigue w < maxFatigue (workerType w)"
      and "currentTask w = Some (CraftingTask item_id)"
      and "\<not> (currentCraft (crafting s) = None \<and> craftingQueue (crafting s) = []
              \<and> \<not> fst (canCraft s item_id))"
  shows "fatigue (snd (updateWorker s w))
           = min (maxFatigue (workerType w)) (fatigue w + 0.2 * fatigueRate (workerType w))"
    and "currentTask (snd (updateWorker s w)) = Some (CraftingTask item_id)"
  using assms
  by (auto simp: updateWorker_def handleCraftingTask_def increaseFatigue_def Let_def min_def
      split: prod.splits)

lemma updateWorker_crafting_task_cleared:
  assumes "\<not> resting w" "fatigue w < maxFatigue (workerType w)"
      and "currentTask w = Some (CraftingTask item_id)"
      and "currentCraft (crafting s) = None" "craftingQueue (crafting s) = []"
      and "\<not> fst (canCraft s item_id)"
  shows "fatigue (snd (updateWorker s w)) = min (maxFatigue (workerType w)) (fatigue w + 0.1)"
    and "currentTask (snd (updateWorker s w)) = None"
  using assms
  by (simp_all add: updateWorker_def handleCraftingTask_def increaseFatigue_def Let_def min_def
      split: prod.splits)

lemma updateWorkers_length: "length (snd (updateWorkers s ws)) = length ws"
proof (induction ws arbitrary: s)
  case Nil
  then show ?case by simp
next
  case (Cons entry ws)
  obtain wid w where entry: "entry = (wid, w)" by (cases entry)
  obtain s1 w1 where turn: "updateWorker s w = (s1, w1)" by (cases "updateWorker s w")
  obtain s2 rest where others: "updateWorkers s1 ws = (s2, rest)" by (cases "updateWorkers s1 ws")
  from Cons.IH [of s1] others show ?case by (simp add: entry turn)
qed

text \<open>
  The workers are updated one after the other on the shared shop: a worker's turn sees the
  shop as the workers before it have left it.
\<close>

definition shop_at_turn :: "shop \<Rightarrow> workerSystem \<Rightarrow> nat \<Rightarrow> shop" where
  "shop_at_turn s ws i = fst (updateWorkers s (take i (workers ws)))"

lemma updateWorkers_nth:
  "i < length ws \<Longrightarrow>
   snd (updateWorkers s ws) ! i
     = (fst (ws ! i), snd (updateWorker (fst (updateWorkers s (take i ws))) (snd (ws ! i))))"
proof (induction ws arbitrary: s i)
  case Nil
  then show ?case by simp
next
  case (Cons entry ws)
  obtain wid w where entry: "entry = (wid, w)" by (cases entry)
  obtain s1 w1 where turn: "updateWorker s w = (s1, w1)" by (cases "updateWorker s w")
  obtain s2 rest where others: "updateWorkers s1 ws = (s2, rest)" by (cases "updateWorkers s1 ws")
  show ?case
  proof (cases i)
    case 0
    then show ?thesis by (simp add: entry turn others)
  next
    case (Suc j)
    with Cons.prems have j: "j < length ws" by simp
    obtain s3 before where earlier: "updateWorkers s1 (take j ws) = (s3, before)"
      by (cases "updateWorkers s1 (take j ws)")
    from Cons.IH [OF j, of s1] show ?thesis
      by (simp add: entry Suc turn others earlier)
  qed
qed

lemma WorkerSystem_update_workers:
  "workers (snd (WorkerSystem_update s ws now)) = snd (updateWorkers s (workers ws))"
  by (simp add: WorkerSystem_update_def split: prod.splits)

definition idle_crew :: workerSystem where
  "idle_crew = \<lparr> workers = [(''apprentice_1'', hired ''apprentice_1'' ''John Smith'' apprentice)],
                 hiringDiscounts = [] \<rparr>"

text \<open>
  A crew at work: a master sent to craft rifles, which the catalog does not have, an
  apprentice minding the forge, and a journeyman making nails.
\<close>

definition working_crew :: workerSystem where
  "working_crew =
     \<lparr> workers =
         [(''master_1'', (hired ''master_1'' ''James Miller'' master)
                           \<lparr> currentTask := Some (CraftingTask ''rifle'') \<rparr>),
          (''apprentice_2'', (hired ''apprentice_2'' ''John Smith'' apprentice)
                           \<lparr> currentTask := Some CoalTask \<rparr>),
          (''journeyman_3'', (hired ''journeyman_3'' ''William Cooper'' journeyman)
                           \<lparr> currentTask := Some (CraftingTask ''nail'') \<rparr>)],
       hiringDiscounts = [] \<rparr>"

text \<open>
  Claim C6, as the code has it. On a tick of \<open>update()\<close>, a hired worker that is not resting
  and is below its type's maximum fatigue accrues fatigue after task handling, by the task
  it holds then, capped at the type's maximum: 0.05 with a coal task; 0.2 times the type's
  fatigue rate with a crafting task it keeps; the base 0.1 when its crafting task was
  cleared on this tick (no job active, nothing queued, and the item cannot be crafted), and
  it is idle afterwards. A worker that is idle at the start of its turn is left as it is:
  it accrues nothing.
\<close>

theorem worker_fatigue_accrues_by_task_after_handling:
  assumes "i < length (workers ws)"
      and "workers ws ! i = (wid, w)"
      and "\<not> resting w"
      and "fatigue w < maxFatigue (workerType w)"
  shows "length (workers (snd (WorkerSystem_update s ws now))) = length (workers ws)
       \<and> fst (workers (snd (WorkerSystem_update s ws now)) ! i) = wid
       \<and> (let w' = snd (workers (snd (WorkerSystem_update s ws now)) ! i);
               s' = shop_at_turn s ws i;
               cap = maxFatigue (workerType w)
           in case currentTask w of
                None \<Rightarrow> w' = w
              | Some CoalTask \<Rightarrow>
                  currentTask w' = Some CoalTask \<and> fatigue w' = min cap (fatigue w + 0.05)
              | Some (CraftingTask item_id) \<Rightarrow>
                  if currentCraft (crafting s') = None \<and> craftingQueue (crafting s') = []
                     \<and> \<not> fst (canCraft s' item_id)
                  then currentTask w' = None \<and> fatigue w' = min cap (fatigue w + 0.1)
                  else currentTask w' = Some (CraftingTask item_id)
                     \<and> fatigue w' = min cap (fatigue w + 0.2 * fatigueRate (workerType w)))"
proof -
  define s' where "s' = shop_at_turn s ws i"
  define w' where "w' = snd (workers (snd (WorkerSystem_update s ws now)) ! i)"
  have len: "length (workers (snd (WorkerSystem_update s ws now))) = length (workers ws)"
    by (simp add: WorkerSystem_update_workers updateWorkers_length)
  have nth: "workers (snd (WorkerSystem_update s ws now)) ! i = (wid, snd (updateWorker s' w))"
    using updateWorkers_nth [OF assms(1), of s] assms(2)
    by (simp add: WorkerSystem_update_workers s'_def shop_at_turn_def)
  have w'_eq: "w' = snd (updateWorker s' w)"
    by (simp add: w'_def nth)
  have by_task: "case currentTask w of
                None \<Rightarrow> w' = w
              | Some CoalTask \<Rightarrow>
                  currentTask w' = Some CoalTask
                  \<and> fatigue w' = min (maxFatigue (workerType w)) (fatigue w + 0.05)
              | Some (CraftingTask item_id) \<Rightarrow>
                  if currentCraft (crafting s') = None \<and> craftingQueue (crafting s') = []
                     \<and> \<not> fst (canCraft s' item_id)
                  then currentTask w' = None
                     \<and> fatigue w' = min (maxFatigue (workerType w)) (fatigue w + 0.1)
                  else currentTask w' = Some (CraftingTask item_id)
                     \<and> fatigue w' = min (maxFatigue (workerType w))
                                      (fatigue w + 0.2 * fatigueRate (workerType w))"
  proof (cases "currentTask w")
    case None
    then show ?thesis
      using updateWorker_idle [OF assms(3,4), of s'] by (simp add: w'_eq)
  next
    case (Some t)
    show ?thesis
    proof (cases t)
      case CoalTask
      with Some have task: "currentTask w = Some CoalTask" by simp
      from updateWorker_coal_task [OF assms(3,4) task, of s'] show ?thesis
        by (simp add: task w'_eq)
    next
      case (CraftingTask item_id)
      with Some have task: "currentTask w = Some (CraftingTask item_id)" by simp
      show ?thesis
      proof (cases "currentCraft (crafting s') = None \<and> craftingQueue (crafting s') = []
                     \<and> \<not> fst (canCraft s' item_id)")
        case True
        then have c: "currentCraft (crafting s') = None" "craftingQueue (crafting s') = []"
          "\<not> fst (canCraft s' item_id)" by simp_all
        from updateWorker_crafting_task_cleared [OF assms(3,4) task c] True show ?thesis
          by (simp add: task w'_eq)
      next
        case False
        from updateWorker_crafting_task_kept [OF assms(3,4) task False] False show ?thesis
          by (simp add: task w'_eq)
      qed
    qed
  qed
  have same_id: "fst (workers (snd (WorkerSystem_update s ws now)) ! i) = wid"
    by (simp add: nth)
  from len same_id by_task [unfolded w'_def s'_def] show ?thesis
    unfolding Let_def by blast
qed

theorem worker_fatigue_accrues_by_task_after_handling_witness:
  "length (workers (snd (WorkerSystem_update (new_shop basic_items) working_crew 0))) = 3
   \<and> map (\<lambda>(wid, w). (wid, resting w, fatigue w < maxFatigue (workerType w), currentTask w))
       (workers working_crew)
       = [(''master_1'', False, True, Some (CraftingTask ''rifle'')),
          (''apprentice_2'', False, True, Some CoalTask),
          (''journeyman_3'', False, True, Some (CraftingTask ''nail''))]
   \<and> map (\<lambda>(wid, w). (wid, currentTask w, fatigue w))
       (workers (snd (WorkerSystem_update (new_shop basic_items) working_crew 0)))
       = [(''master_1'', None, 0.1),
          (''apprentice_2'', Some CoalTask, 0.05),
          (''journeyman_3'', Some (CraftingTask ''nail''), 0.2)]"
proof -
  let ?s = "new_shop basic_items"
  let ?after = "workers (snd (WorkerSystem_update ?s working_crew 0))"
  let ?master = "(hired ''master_1'' ''James Miller'' master)
                   \<lparr> currentTask := Some (CraftingTask ''rifle'') \<rparr>"
  let ?apprentice = "(hired ''apprentice_2'' ''John Smith'' apprentice)
                   \<lparr> currentTask := Some CoalTask \<rparr>"
  let ?journeyman = "(hired ''journeyman_3'' ''William Cooper'' journeyman)
                   \<lparr> currentTask := Some (CraftingTask ''nail'') \<rparr>"
  have crew: "workers working_crew
                = [(''master_1'', ?master), (''apprentice_2'', ?apprentice),
                   (''journeyman_3'', ?journeyman)]"
    by (simp add: working_crew_def)
  have before: "map (\<lambda>(wid, w). (wid, resting w, fatigue w < maxFatigue (workerType w), currentTask w))
       (workers working_crew)
       = [(''master_1'', False, True, Some (CraftingTask ''rifle'')),
          (''apprentice_2'', False, True, Some CoalTask),
          (''journeyman_3'', False, True, Some (CraftingTask ''nail''))]"
    by code_simp
  have turn0: "currentCraft (crafting (shop_at_turn ?s working_crew 0)) = None
             \<and> craftingQueue (crafting (shop_at_turn ?s working_crew 0)) = []
             \<and> \<not> fst (canCraft (shop_at_turn ?s working_crew 0) ''rifle'')"
    by code_simp
  have turn2: "fst (canCraft (shop_at_turn ?s working_crew 2) ''nail'')"
    by code_simp
  have first: "length ?after = 3 \<and> fst (?after ! 0) = ''master_1''
       \<and> currentTask (snd (?after ! 0)) = None \<and> fatigue (snd (?after ! 0)) = 0.1"
    using worker_fatigue_accrues_by_task_after_handling
            [of 0 working_crew "''master_1''" ?master ?s 0] turn0
    by (simp add: crew hired_def master_def Let_def)
  have second: "fst (?after ! 1) = ''apprentice_2''
       \<and> currentTask (snd (?after ! 1)) = Some CoalTask \<and> fatigue (snd (?after ! 1)) = 0.05"
    using worker_fatigue_accrues_by_task_after_handling
            [of 1 working_crew "''apprentice_2''" ?apprentice ?s 0]
    by (simp add: crew hired_def apprentice_def Let_def)
  have third: "fst (?after ! 2) = ''journeyman_3''
       \<and> currentTask (snd (?after ! 2)) = Some (CraftingTask ''nail'')
       \<and> fatigue (snd (?after ! 2)) = 0.2"
    using worker_fatigue_accrues_by_task_after_handling
            [of 2 working_crew "''journeyman_3''" ?journeyman ?s 0] turn2
    by (simp add: crew hired_def journeyman_def Let_def)
  from first obtain a b c where after: "?after = [a, b, c]"
    by (auto simp: length_Suc_conv numeral_3_eq_3)
  from first second third have
    "map (\<lambda>(wid, w). (wid, currentTask w, fatigue w)) ?after
       = [(''master_1'', None, 0.1),
          (''apprentice_2'', Some CoalTask, 0.05),
          (''journeyman_3'', Some (CraftingTask ''nail''), 0.2)]"
    unfolding after by (auto simp: case_prod_beta)
  with first before show ?thesis
    by simp
qed

text \<open>
  Claim C6 as stated fails on two ticks. An idle worker accrues nothing: \<open>updateWorker\<close>
  returns as soon as it finds no task, before it reaches \<open>increaseFatigue\<close>, so a freshly
  hired apprentice, not resting, at fatigue 0 and idle, is still at fatigue 0 after
  \<open>update()\<close>, not at the baseline 0.1. And a worker assigned a crafting task does not
  always accrue 0.2 times its fatigue rate: the same apprentice (fatigue rate 1.2) sent to
  craft an item the catalog does not have loses the task during task handling and ends the
  tick idle at 0.1, not at 0.24.
\<close>

theorem idle_worker_accrues_no_fatigue:
  "map (\<lambda>(wid, w). (resting w, currentTask w, fatigue w))
     (workers (snd (WorkerSystem_update (new_shop basic_items) idle_crew 0)))
     = [(False, None, 0)]
   \<and> (let w = snd (updateWorker (new_shop basic_items)
                      ((hired ''apprentice_1'' ''John Smith'' apprentice)
                         \<lparr> currentTask := Some (CraftingTask ''rifle'') \<rparr>))
      in (currentTask w, fatigue w)) = (None, 0.1)"
  by code_simp

subsection \<open>The inventory's accessors and the objects they share\<close>

text \<open>
  The accessors return \<open>{ ...this.materials }\<close>, \<open>{ ...this.items }\<close> and
  \<open>{ ...this.tools }\<close>: a new object with the properties of the old one. Whether a caller
  can reach the inventory's own objects through the result is a question of aliasing, so
  here the objects live in a heap: an object is a map from property names to values, a
  value is a number or a reference, and a reference is an index into the list of objects.
\<close>

datatype jsval = Num num | Ref nat

type_synonym obj = "string \<rightharpoonup> jsval"

type_synonym heap = "obj list"

record ledger =
  materials_ref :: nat
  items_ref :: nat
  tools_ref :: nat

text \<open>The constructor's objects: the three dictionaries and one record per tool.\<close>

definition new_heap :: heap where
  "new_heap =
     [ [''iron'' \<mapsto> Num 50, ''coal'' \<mapsto> Num 25, ''wood'' \<mapsto> Num 30, ''leather'' \<mapsto> Num 10,
        ''gunpowder'' \<mapsto> Num 5, ''copper'' \<mapsto> Num 20, ''silver'' \<mapsto> Num 5, ''gold'' \<mapsto> Num 1],
       [''pickaxe'' \<mapsto> Num 1, ''hatchet'' \<mapsto> Num 1, ''horseshoe'' \<mapsto> Num 2],
       [''hammer'' \<mapsto> Ref 3, ''anvil'' \<mapsto> Ref 4, ''tongs'' \<mapsto> Ref 5],
       [''uses'' \<mapsto> Num 25, ''maxUses'' \<mapsto> Num 30],
       [''uses'' \<mapsto> Num 50, ''maxUses'' \<mapsto> Num 50],
       [''uses'' \<mapsto> Num 40, ''maxUses'' \<mapsto> Num 40] ]"

definition new_ledger :: ledger where
  "new_ledger = \<lparr> materials_ref = 0, items_ref = 1, tools_ref = 2 \<rparr>"

text \<open>\<open>{ ...o }\<close>: a fresh object with the own properties of \<open>o\<close>, values copied as they are.\<close>

definition spread :: "heap \<Rightarrow> nat \<Rightarrow> nat \<times> heap" where
  "spread h a = (length h, h @ [h ! a])"

definition getMaterials :: "heap \<Rightarrow> ledger \<Rightarrow> nat \<times> heap" where
  "getMaterials h l = spread h (materials_ref l)"

definition getItems :: "heap \<Rightarrow> ledger \<Rightarrow> nat \<times> heap" where
  "getItems h l = spread h (items_ref l)"

definition getTools :: "heap \<Rightarrow> ledger \<Rightarrow> nat \<times> heap" where
  "getTools h l = spread h (tools_ref l)"

text \<open>
  What a caller can do to an object it holds: assign or delete a property of it, or of an
  object one of its properties refers to. A nested write through a property that holds a
  number, or is missing, changes no object.
\<close>

datatype mutation =
    SetProp string jsval
  | DeleteProp string
  | SetNested string string jsval
  | DeleteNested string string

fun mutate :: "heap \<Rightarrow> nat \<Rightarrow> mutation \<Rightarrow> heap" where
  "mutate h r (SetProp k v) = h[r := (h ! r)(k \<mapsto> v)]"
| "mutate h r (DeleteProp k) = h[r := (h ! r)(k := None)]"
| "mutate h r (SetNested k k' v) =
     (case (h ! r) k of Some (Ref a) \<Rightarrow> h[a := (h ! a)(k' \<mapsto> v)] | _ \<Rightarrow> h)"
| "mutate h r (DeleteNested k k') =
     (case (h ! r) k of Some (Ref a) \<Rightarrow> h[a := (h ! a)(k' := None)] | _ \<Rightarrow> h)"

fun top_level :: "mutation \<Rightarrow> bool" where
  "top_level (SetProp k v) = True"
| "top_level (DeleteProp k) = True"
| "top_level _ = False"

fun mutate_all :: "heap \<Rightarrow> nat \<Rightarrow> mutation list \<Rightarrow> heap" where
  "mutate_all h r [] = h"
| "mutate_all h r (m # ms) = mutate_all (mutate h r m) r ms"

text \<open>What the inventory stores, read through its own references.\<close>

definition stored_numbers :: "heap \<Rightarrow> nat \<Rightarrow> string \<Rightarrow> num option" where
  "stored_numbers h a k = (case (h ! a) k of Some (Num v) \<Rightarrow> Some v | _ \<Rightarrow> None)"

definition stored_tools :: "heap \<Rightarrow> ledger \<Rightarrow> string \<Rightarrow> tool option" where
  "stored_tools h l k =
     (case (h ! tools_ref l) k of
        Some (Ref a) \<Rightarrow>
          (case ((h ! a) ''uses'', (h ! a) ''maxUses'') of
             (Some (Num u), Some (Num m)) \<Rightarrow> Some \<lparr> uses = u, maxUses = m \<rparr>
           | _ \<Rightarrow> None)
      | _ \<Rightarrow> None)"

definition stored ::
  "heap \<Rightarrow> ledger \<Rightarrow> (string \<Rightarrow> num option) \<times> (string \<Rightarrow> num option) \<times> (string \<Rightarrow> tool option)" where
  "stored h l =
     (stored_numbers h (materials_ref l), stored_numbers h (items_ref l), stored_tools h l)"

text \<open>
  The shape the inventory keeps: its three objects exist, materials and items hold numbers,
  and every tool entry refers to an existing record.
\<close>

definition wf_ledger :: "heap \<Rightarrow> ledger \<Rightarrow> bool" where
  "wf_ledger h l =
     (materials_ref l < length h \<and> items_ref l < length h \<and> tools_ref l < length h
      \<and> (\<forall>k a. (h ! materials_ref l) k \<noteq> Some (Ref a))
      \<and> (\<forall>k a. (h ! items_ref l) k \<noteq> Some (Ref a))
      \<and> (\<forall>k a. (h ! tools_ref l) k = Some (Ref a) \<longrightarrow> a < length h))"

text \<open>\<open>ToolDurability.repairTool\<close>: it writes the new durability into the record it finds
  in the object \<open>getTools\<close> returned (and publishes \<open>tool:repaired\<close>, which changes no
  object).\<close>

definition repairTool :: "heap \<Rightarrow> ledger \<Rightarrow> string \<Rightarrow> num \<Rightarrow> bool \<times> heap" where
  "repairTool h l toolName repairAmount =
     (case getTools h l of
        (r, h1) \<Rightarrow>
          (case (h1 ! r) toolName of
             Some (Ref a) \<Rightarrow>
               (case ((h1 ! a) ''uses'', (h1 ! a) ''maxUses'') of
                  (Some (Num currentDurability), Some (Num maxDurability)) \<Rightarrow>
                    (True, mutate h1 r
                             (SetNested toolName ''uses''
                                (Num (min (currentDurability + repairAmount) maxDurability))))
                | _ \<Rightarrow> (True, h1))
           | _ \<Rightarrow> (False, h1)))"

lemma new_ledger_wf: "wf_ledger new_heap new_ledger"
  by (auto simp: wf_ledger_def new_heap_def new_ledger_def split: if_splits)

lemma new_ledger_stored:
  "stored new_heap new_ledger
     = (materials new_inventory, items new_inventory, tools new_inventory)"
  by (auto simp: stored_def stored_numbers_def stored_tools_def new_heap_def new_ledger_def
      new_inventory_def fun_eq_iff)

lemma stored_extend:
  "wf_ledger h l \<Longrightarrow> stored (h @ [x]) l = stored h l"
  by (auto simp: stored_def stored_numbers_def stored_tools_def wf_ledger_def nth_append
      fun_eq_iff split: option.splits jsval.splits)

lemma mutate_all_top_level_fresh:
  "list_all top_level ms \<Longrightarrow> \<exists>x'. mutate_all (h @ [x]) (length h) ms = h @ [x']"
proof (induction ms arbitrary: x)
  case Nil
  then show ?case by simp
next
  case (Cons m ms)
  from Cons.prems have "top_level m" "list_all top_level ms" by simp_all
  then obtain y where "mutate (h @ [x]) (length h) m = h @ [y]"
    by (cases m) simp_all
  with Cons.IH [OF \<open>list_all top_level ms\<close>, of y] show ?case by simp
qed

lemma mutate_numbers_fresh:
  assumes "\<forall>k a. x k \<noteq> Some (Ref a)"
  shows "\<exists>x'. mutate (h @ [x]) (length h) m = h @ [x']"
  using assms by (cases m) (auto split: option.splits jsval.splits)


text \<open>
  Claim C9, as the code has it. The accessors return shallow copies. Whatever properties a
  caller assigns or deletes on the object \<open>getMaterials\<close>, \<open>getItems\<close> or \<open>getTools\<close>
  returned, the inventory's stored materials, items and tools are unchanged; and no
  mutation of the result of \<open>getMaterials\<close> or \<open>getItems\<close>, nested ones included, changes
  them, since their values are numbers. (The per-tool records reached through the result
  of \<open>getTools\<close> are the inventory's own: see the counterexample.)
\<close>

theorem accessors_return_shallow_copies:
  assumes "wf_ledger h l"
  shows "(\<forall>ms. list_all top_level ms \<longrightarrow>
            stored (mutate_all (snd (getMaterials h l)) (fst (getMaterials h l)) ms) l = stored h l
          \<and> stored (mutate_all (snd (getItems h l)) (fst (getItems h l)) ms) l = stored h l
          \<and> stored (mutate_all (snd (getTools h l)) (fst (getTools h l)) ms) l = stored h l)
       \<and> (\<forall>m. stored (mutate (snd (getMaterials h l)) (fst (getMaterials h l)) m) l = stored h l
            \<and> stored (mutate (snd (getItems h l)) (fst (getItems h l)) m) l = stored h l)"
proof (intro conjI allI impI)
  fix ms assume top: "list_all top_level ms"
  show "stored (mutate_all (snd (getMaterials h l)) (fst (getMaterials h l)) ms) l = stored h l"
    using mutate_all_top_level_fresh [OF top, of h "h ! materials_ref l"] assms
    by (auto simp: getMaterials_def spread_def stored_extend)
  show "stored (mutate_all (snd (getItems h l)) (fst (getItems h l)) ms) l = stored h l"
    using mutate_all_top_level_fresh [OF top, of h "h ! items_ref l"] assms
    by (auto simp: getItems_def spread_def stored_extend)
  show "stored (mutate_all (snd (getTools h l)) (fst (getTools h l)) ms) l = stored h l"
    using mutate_all_top_level_fresh [OF top, of h "h ! tools_ref l"] assms
    by (auto simp: getTools_def spread_def stored_extend)
next
  fix m
  have "\<forall>k a. (h ! materials_ref l) k \<noteq> Some (Ref a)"
    using assms by (simp add: wf_ledger_def)
  from mutate_numbers_fresh [OF this, of h m] assms
  show "stored (mutate (snd (getMaterials h l)) (fst (getMaterials h l)) m) l = stored h l"
    by (auto simp: getMaterials_def spread_def stored_extend)
  have "\<forall>k a. (h ! items_ref l) k \<noteq> Some (Ref a)"
    using assms by (simp add: wf_ledger_def)
  from mutate_numbers_fresh [OF this, of h m] assms
  show "stored (mutate (snd (getItems h l)) (fst (getItems h l)) m) l = stored h l"
    by (auto simp: getItems_def spread_def stored_extend)
qed

theorem accessors_return_shallow_copies_witness:
  "wf_ledger new_heap new_ledger
   \<and> list_all top_level [SetProp ''hammer'' (Num 0), DeleteProp ''anvil'']
   \<and> stored (mutate_all (snd (getTools new_heap new_ledger)) (fst (getTools new_heap new_ledger))
               [SetProp ''hammer'' (Num 0), DeleteProp ''anvil'']) new_ledger
       = stored new_heap new_ledger
   \<and> stored (mutate (snd (getMaterials new_heap new_ledger)) (fst (getMaterials new_heap new_ledger))
               (SetNested ''iron'' ''amount'' (Num 0))) new_ledger
       = stored new_heap new_ledger"
proof -
  note t = accessors_return_shallow_copies [OF new_ledger_wf]
  have top: "list_all top_level [SetProp ''hammer'' (Num 0), DeleteProp ''anvil'']" by simp
  from t top have a:
    "stored (mutate_all (snd (getTools new_heap new_ledger)) (fst (getTools new_heap new_ledger))
               [SetProp ''hammer'' (Num 0), DeleteProp ''anvil'']) new_ledger
       = stored new_heap new_ledger"
    by blast
  from t have b:
    "stored (mutate (snd (getMaterials new_heap new_ledger)) (fst (getMaterials new_heap new_ledger))
               (SetNested ''iron'' ''amount'' (Num 0))) new_ledger
       = stored new_heap new_ledger"
    by blast
  from new_ledger_wf top a b show ?thesis by blast
qed

text \<open>
  Claim C9 as stated fails for the nested records of \<open>getTools\<close>: the copy holds the same
  record objects as the inventory. Zeroing \<open>uses\<close> of the hammer through the returned
  object zeroes the stored hammer; and \<open>repairTool\<close> works by exactly this path: repairing
  the hammer (25 of 30) by 3 through the object \<open>getTools\<close> returned leaves the inventory's
  hammer at 28.
\<close>

theorem getTools_shares_tool_records:
  "stored_tools new_heap new_ledger ''hammer'' = Some \<lparr> uses = 25, maxUses = 30 \<rparr>
   \<and> stored_tools
        (mutate (snd (getTools new_heap new_ledger)) (fst (getTools new_heap new_ledger))
           (SetNested ''hammer'' ''uses'' (Num 0)))
        new_ledger ''hammer'' = Some \<lparr> uses = 0, maxUses = 30 \<rparr>
   \<and> fst (repairTool new_heap new_ledger ''hammer'' 3)
   \<and> stored_tools (snd (repairTool new_heap new_ledger ''hammer'' 3)) new_ledger ''hammer''
       = Some \<lparr> uses = 28, maxUses = 30 \<rparr>"
  by code_simp

end
